theory Spec2Isabelle
  imports Main "HOL-Library.Word"
begin

unbundle bit_operations_syntax

section \<open>Network-clock playback: data model\<close>

text \<open>
  The player (\<^verbatim>\<open>src/unnamed/part_000\<close>) and the clock provider
  (\<^verbatim>\<open>src/network-clocks/netclock-server.c\<close>) are C programs driving GStreamer and
  GLib. The embedding keeps the controller's own state (\<^verbatim>\<open>GlobalData\<close>) as a record
  and records every call the program makes on its collaborators (console, pipeline, main
  loop) as an \<open>action\<close>, in program order. What a collaborator answers (a parsed command
  line, a position query, a state-change return, the next bus message) is an input.
\<close>

type_synonym gint = "32 word"
type_synonym guint = "32 word"
type_synonym gint64 = "64 word"
type_synonym guint64 = "64 word"
type_synonym GstClockTime = "64 word"

definition GST_CLOCK_TIME_NONE :: GstClockTime where
  "GST_CLOCK_TIME_NONE = - 1"

definition GST_SECOND :: "64 word" where
  "GST_SECOND = 1000000000"

definition GST_MSECOND :: "64 word" where
  "GST_MSECOND = 1000000"

definition PLAY_FLAGS_VIDEO :: gint where "PLAY_FLAGS_VIDEO = 0x1"
definition PLAY_FLAGS_AUDIO :: gint where "PLAY_FLAGS_AUDIO = 0x2"
definition PLAY_FLAGS_SUBTITLES :: gint where "PLAY_FLAGS_SUBTITLES = 0x4"
definition PLAY_FLAGS_VISUALISATIONS :: gint where "PLAY_FLAGS_VISUALISATIONS = 0x8"
definition PLAY_FLAGS_DOWNLOAD :: gint where "PLAY_FLAGS_DOWNLOAD = 0x80"

datatype GstState =
    GST_STATE_VOID_PENDING
  | GST_STATE_NULL
  | GST_STATE_READY
  | GST_STATE_PAUSED
  | GST_STATE_PLAYING

datatype GstStateChangeReturn =
    GST_STATE_CHANGE_FAILURE
  | GST_STATE_CHANGE_SUCCESS
  | GST_STATE_CHANGE_ASYNC
  | GST_STATE_CHANGE_NO_PREROLL

text \<open>The name GStreamer gives a state (\<^verbatim>\<open>gst_element_state_get_name\<close>).\<close>

fun gst_element_state_get_name :: "GstState \<Rightarrow> string" where
  "gst_element_state_get_name GST_STATE_VOID_PENDING = ''VOID_PENDING''"
| "gst_element_state_get_name GST_STATE_NULL = ''NULL''"
| "gst_element_state_get_name GST_STATE_READY = ''READY''"
| "gst_element_state_get_name GST_STATE_PAUSED = ''PAUSED''"
| "gst_element_state_get_name GST_STATE_PLAYING = ''PLAYING''"

text \<open>Arguments of a printf-style call, kept unformatted beside the format string.\<close>

datatype fmt_arg =
    ArgStr string
  | ArgNull
  | ArgInt gint
  | ArgUInt guint
  | ArgUInt64 guint64

fun str_arg :: "string option \<Rightarrow> fmt_arg" where
  "str_arg None = ArgNull"
| "str_arg (Some s) = ArgStr s"

text \<open>The calls the programs make, in the order they make them.\<close>

datatype action =
    G_print string "fmt_arg list"
  | G_printerr string "fmt_arg list"
  | G_error string "fmt_arg list"
  | Net_client_clock_new "string option" gint
  | Clock_wait_for_sync GstClockTime
  | Element_factory_make string string
  | Pipeline_use_clock
  | Clock_unref
  | Element_set_start_time GstClockTime
  | Element_set_base_time GstClockTime
  | Pipeline_set_latency GstClockTime
  | Object_set_uri "string option"
  | Object_set_int string gint
  | Bus_add_watch
  | Main_loop_new
  | Element_set_state GstState
  | Io_add_watch
  | Main_loop_quit
  | Source_remove guint
  | Playbin_unref
  | Main_loop_unref
  | Element_seek_simple_flush gint64
  | Bin_recalculate_latency
  | Net_time_provider_new gint
  | Timeout_add_seconds guint

text \<open>The properties of \<^verbatim>\<open>playbin\<close> that the player reads and writes.\<close>

record GstElement =
  flags :: gint
  current_audio :: gint
  n_audio :: gint
  current_text :: gint
  n_text :: gint

record GMainLoop =
  is_running :: bool

record GlobalData =
  loop :: GMainLoop
  playbin :: GstElement
  bus_watch :: guint
  io_watch_id :: guint
  buffering :: bool
  is_live :: bool

text \<open>
  What \<^verbatim>\<open>ASYNC_DONE\<close> finds on the video pad: the caps' width and height and, when
  present, the pixel aspect ratio (a GStreamer fraction: its denominator is never 0).
\<close>

record video_caps =
  width :: gint
  height :: gint
  pixel_aspect_ratio :: "(gint \<times> gint) option"

text \<open>
  A bus message with what the handler parses out of it. \<open>GST_MESSAGE_STATE_CHANGED\<close>
  also carries the base time the pipeline reports when the handler asks for it;
  \<open>GST_MESSAGE_OTHER\<close> is any other message type, with the description of the missing
  plugin when it is a missing-plugin message.
\<close>

datatype GstMessage =
    GST_MESSAGE_EOS
  | GST_MESSAGE_ERROR string string "string option"
  | GST_MESSAGE_TAG "string option" "string option" "string option"
  | GST_MESSAGE_ASYNC_DONE "video_caps option"
  | GST_MESSAGE_BUFFERING gint
  | GST_MESSAGE_CLOCK_LOST
  | GST_MESSAGE_LATENCY
  | GST_MESSAGE_REQUEST_STATE string GstState
  | GST_MESSAGE_WARNING string "string option"
  | GST_MESSAGE_STATE_CHANGED bool GstState GstState GstState guint64
  | GST_MESSAGE_OTHER "string option"

section \<open>The bus handler\<close>

text \<open>C's \<^verbatim>\<open>/\<close> on \<^verbatim>\<open>gint\<close>: the quotient truncated towards zero.\<close>

definition c_div :: "gint \<Rightarrow> gint \<Rightarrow> gint" where
  "c_div a b = word_of_int (sgn (sint a) * sgn (sint b) * (\<bar>sint a\<bar> div \<bar>sint b\<bar>))"

definition g_main_loop_quit :: "GlobalData \<Rightarrow> GlobalData" where
  "g_main_loop_quit data = data\<lparr>loop := (loop data)\<lparr>is_running := False\<rparr>\<rparr>"

definition tag_lines :: "string \<Rightarrow> string option \<Rightarrow> action list" where
  "tag_lines fmt v = (case v of None \<Rightarrow> [] | Some s \<Rightarrow> [G_print fmt [ArgStr s]])"

text \<open>
  \<^verbatim>\<open>handle_bus_msg\<close>: the actions issued, the controller state afterwards, and the
  value returned to the main loop (always \<^verbatim>\<open>TRUE\<close>: the watch stays installed).
\<close>

fun handle_bus_msg :: "GstMessage \<Rightarrow> GlobalData \<Rightarrow> action list \<times> GlobalData \<times> bool" where
  "handle_bus_msg GST_MESSAGE_EOS data =
     ([G_print ''Finished playback. Exiting.\<newline>'' [], Main_loop_quit],
      g_main_loop_quit data, True)"
| "handle_bus_msg (GST_MESSAGE_ERROR src_name message dbg_info) data =
     ([G_printerr ''ERROR from element %s: %s\<newline>'' [ArgStr src_name, ArgStr message],
       G_printerr ''Debugging info: %s\<newline>''
         [ArgStr (case dbg_info of Some d \<Rightarrow> d | None \<Rightarrow> ''none'')],
       G_print ''Exiting.\<newline>'' [],
       Main_loop_quit],
      g_main_loop_quit data, True)"
| "handle_bus_msg (GST_MESSAGE_TAG artist title album) data =
     ([G_print ''Found tags\<newline>'' []]
        @ tag_lines ''Artist: %s\<newline>'' artist
        @ tag_lines ''Title: %s\<newline>'' title
        @ tag_lines ''Album: %s\<newline>'' album,
      data, True)"
| "handle_bus_msg (GST_MESSAGE_ASYNC_DONE video_pad) data =
     ([G_print (''Prerolled.'' @ [CHR 0x0D]) []]
        @ (case video_pad of
             None \<Rightarrow> []
           | Some caps \<Rightarrow>
               (let (par_n, par_d) =
                      (case pixel_aspect_ratio caps of None \<Rightarrow> (1, 1) | Some f \<Rightarrow> f)
                in [G_print ''Video size: %dx%d\<newline>''
                      [ArgInt (c_div (width caps * par_n) par_d), ArgInt (height caps)]])),
      data, True)"
| "handle_bus_msg (GST_MESSAGE_BUFFERING percent) data =
     (let out = (if \<not> buffering data then [G_print ''\<newline>'' []] else [])
                  @ [G_print (''Buffering... %d%%  '' @ [CHR 0x0D]) [ArgInt percent]]
      in if is_live data then (out, data, True)
         else if percent = 100 then
           (if buffering data
            then (out @ [Element_set_state GST_STATE_PLAYING],
                  data\<lparr>buffering := False\<rparr>, True)
            else (out, data, True))
         else
           (if \<not> buffering data
            then (out @ [Element_set_state GST_STATE_PAUSED],
                  data\<lparr>buffering := True\<rparr>, True)
            else (out, data, True)))"
| "handle_bus_msg GST_MESSAGE_CLOCK_LOST data =
     ([G_print ''Clock lost, selecting a new one\<newline>'' [],
       Element_set_state GST_STATE_PAUSED,
       Element_set_state GST_STATE_PLAYING],
      data, True)"
| "handle_bus_msg GST_MESSAGE_LATENCY data =
     ([G_print ''Redistribute latency...\<newline>'' [], Bin_recalculate_latency],
      data, True)"
| "handle_bus_msg (GST_MESSAGE_REQUEST_STATE name state) data =
     ([G_print ''Setting state to %s as requested by %s...\<newline>''
         [ArgStr (gst_element_state_get_name state), ArgStr name],
       Element_set_state state],
      data, True)"
| "handle_bus_msg (GST_MESSAGE_WARNING message dbg) data =
     ([G_printerr ''WARNING %s\<newline>'' [ArgStr message]]
        @ (case dbg of
             None \<Rightarrow> []
           | Some d \<Rightarrow> [G_printerr ''WARNING debug information: %s\<newline>'' [ArgStr d]]),
      data, True)"
| "handle_bus_msg (GST_MESSAGE_STATE_CHANGED from_playbin old new pending base) data =
     ((if from_playbin \<and> old = GST_STATE_PAUSED \<and> new = GST_STATE_PLAYING
       then [G_print ''Reached playing. Base time is %lu\<newline>'' [ArgUInt64 base]]
       else []),
      data, True)"
| "handle_bus_msg (GST_MESSAGE_OTHER missing_plugin) data =
     ((case missing_plugin of
         None \<Rightarrow> []
       | Some desc \<Rightarrow> [G_print ''Missing plugin: %s\<newline>'' [ArgStr desc]]),
      data, True)"

text \<open>The pipeline state commands among a run of actions, in order.\<close>

fun state_commands :: "action list \<Rightarrow> GstState list" where
  "state_commands [] = []"
| "state_commands (Element_set_state s # as) = s # state_commands as"
| "state_commands (a # as) = state_commands as"

text \<open>
  The bus watch delivers messages one at a time: the state commands each message caused,
  and the controller state after the last.
\<close>

fun deliver :: "GstMessage list \<Rightarrow> GlobalData \<Rightarrow> GstState list list \<times> GlobalData" where
  "deliver [] data = ([], data)"
| "deliver (m # ms) data =
     (case handle_bus_msg m data of
        (out, data', keep) \<Rightarrow>
          (case deliver ms data' of
             (cs, data'') \<Rightarrow> (state_commands out # cs, data'')))"

section \<open>Interactive commands\<close>

text \<open>
  \<^verbatim>\<open>seek\<close>. The third argument is the answer of \<^verbatim>\<open>gst_element_query_position\<close>:
  \<open>None\<close> when the query fails, the position otherwise. \<^verbatim>\<open>position\<close> is a
  \<^verbatim>\<open>gint64\<close> and \<^verbatim>\<open>GST_SECOND\<close> a signed 64-bit constant, so the comparison is signed
  and the arithmetic is that of 64-bit words.
\<close>

definition seek :: "GlobalData \<Rightarrow> bool \<Rightarrow> gint64 option \<Rightarrow> action list \<times> GlobalData" where
  "seek data forward query =
     (case query of
        None \<Rightarrow> ([], data)
      | Some position \<Rightarrow>
          ([Element_seek_simple_flush
              (if forward then position + 10 * GST_SECOND
               else if 10 * GST_SECOND <s position then position - 10 * GST_SECOND
               else 0)],
           data))"

definition next_audio :: "GlobalData \<Rightarrow> action list \<times> GlobalData" where
  "next_audio data =
     (let count = n_audio (playbin data);
          current = current_audio (playbin data) + 1;
          current = (if count \<le>s current then 0 else current)
      in ([Object_set_int ''current-audio'' current,
           G_print ''Now playing audio track %d of %d\<newline>'' [ArgInt current, ArgInt count]],
          data\<lparr>playbin := (playbin data)\<lparr>current_audio := current\<rparr>\<rparr>))"

definition toggle_subtitle :: "GlobalData \<Rightarrow> action list \<times> GlobalData" where
  "toggle_subtitle data =
     (let flags0 = flags (playbin data)
      in if flags0 AND PLAY_FLAGS_SUBTITLES \<noteq> 0
         then ([G_print ''Disabling subtitles\<newline>'' [],
                Object_set_int ''flags'' (flags0 AND NOT PLAY_FLAGS_SUBTITLES)],
               data\<lparr>playbin := (playbin data)\<lparr>flags := flags0 AND NOT PLAY_FLAGS_SUBTITLES\<rparr>\<rparr>)
         else ([G_print ''Enabling subtitles\<newline>'' [],
                Object_set_int ''flags'' (flags0 OR PLAY_FLAGS_SUBTITLES)],
               data\<lparr>playbin := (playbin data)\<lparr>flags := flags0 OR PLAY_FLAGS_SUBTITLES\<rparr>\<rparr>))"

definition next_subtitle :: "GlobalData \<Rightarrow> action list \<times> GlobalData" where
  "next_subtitle data =
     (let count = n_text (playbin data);
          current = current_text (playbin data) + 1;
          current = (if count \<le>s current then 0 else current);
          pb = (playbin data)\<lparr>current_text := current\<rparr>;
          flags1 = flags pb OR PLAY_FLAGS_SUBTITLES
      in ([Object_set_int ''current-text'' current,
           Object_set_int ''flags'' flags1,
           G_print ''Now showing subtitles track %d of %d\<newline>'' [ArgInt current, ArgInt count]],
          data\<lparr>playbin := pb\<lparr>flags := flags1\<rparr>\<rparr>))"

definition toggle_vis :: "GlobalData \<Rightarrow> action list \<times> GlobalData" where
  "toggle_vis data =
     (let flags0 = flags (playbin data)
      in if flags0 AND PLAY_FLAGS_VISUALISATIONS \<noteq> 0
         then ([G_print ''Disabling visualisations\<newline>'' [],
                Object_set_int ''flags'' (flags0 AND NOT PLAY_FLAGS_VISUALISATIONS)],
               data\<lparr>playbin := (playbin data)\<lparr>flags := flags0 AND NOT PLAY_FLAGS_VISUALISATIONS\<rparr>\<rparr>)
         else ([G_print ''Enabling visualisations\<newline>'' [],
                Object_set_int ''flags'' (flags0 OR PLAY_FLAGS_VISUALISATIONS)],
               data\<lparr>playbin := (playbin data)\<lparr>flags := flags0 OR PLAY_FLAGS_VISUALISATIONS\<rparr>\<rparr>))"

text \<open>What \<^verbatim>\<open>g_io_channel_read_chars\<close> returns for one character of standard input.\<close>

datatype io_read =
    G_IO_STATUS_ERROR string
  | G_IO_STATUS_NORMAL char
  | G_IO_STATUS_EOF
  | G_IO_STATUS_AGAIN

text \<open>
  \<^verbatim>\<open>io_callback\<close>, with the position the pipeline would answer if this command seeks.
  The returned flag is the callback's return value: \<^verbatim>\<open>FALSE\<close> removes the watch.
\<close>

fun io_callback :: "io_read \<Rightarrow> gint64 option \<Rightarrow> GlobalData \<Rightarrow> action list \<times> GlobalData \<times> bool" where
  "io_callback (G_IO_STATUS_NORMAL c) query data =
     (if c = CHR ''q'' then ([Main_loop_quit], g_main_loop_quit data, True)
      else if c = CHR ''f'' then (case seek data False query of (out, d) \<Rightarrow> (out, d, True))
      else if c = CHR ''g'' then (case seek data True query of (out, d) \<Rightarrow> (out, d, True))
      else if c = CHR ''a'' then (case next_audio data of (out, d) \<Rightarrow> (out, d, True))
      else if c = CHR ''d'' then (case toggle_subtitle data of (out, d) \<Rightarrow> (out, d, True))
      else if c = CHR ''s'' then (case next_subtitle data of (out, d) \<Rightarrow> (out, d, True))
      else if c = CHR ''v'' then (case toggle_vis data of (out, d) \<Rightarrow> (out, d, True))
      else ([], data, True))"
| "io_callback G_IO_STATUS_AGAIN query data = ([], data, True)"
| "io_callback (G_IO_STATUS_ERROR message) query data =
     ([G_printerr ''stdin IO error: %s\<newline>'' [ArgStr message], Main_loop_quit],
      g_main_loop_quit data, False)"
| "io_callback G_IO_STATUS_EOF query data = ([], data, False)"

section \<open>The main loop and the player's entry point\<close>

datatype event =
    Bus_message GstMessage
  | Stdin_ready io_read "gint64 option"

text \<open>
  The loop dispatches one event per iteration while it is running. The flag says whether
  the standard-input watch is still installed; the bus watch always is, since
  \<^verbatim>\<open>handle_bus_msg\<close> only returns \<^verbatim>\<open>TRUE\<close>. The result is the actions issued and the
  state where the loop stopped dispatching: either it was quit, or the events ran out and
  it is still running, waiting.
\<close>

fun dispatch :: "event list \<Rightarrow> bool \<Rightarrow> GlobalData \<Rightarrow> action list \<times> bool \<times> GlobalData" where
  "dispatch [] io data = ([], io, data)"
| "dispatch (Bus_message m # es) io data =
     (if \<not> is_running (loop data) then ([], io, data)
      else case handle_bus_msg m data of
             (out, data', keep) \<Rightarrow>
               (case dispatch es io data' of
                  (out', r) \<Rightarrow> (out @ out', r)))"
| "dispatch (Stdin_ready r query # es) io data =
     (if \<not> is_running (loop data) then ([], io, data)
      else if \<not> io then dispatch es io data
      else case io_callback r query data of
             (out, data', keep) \<Rightarrow>
               (case dispatch es keep data' of
                  (out', r) \<Rightarrow> (out @ out', r)))"

text \<open>
  \<^verbatim>\<open>g_main_loop_run\<close> marks the loop running and dispatches until it is quit; \<open>None\<close>
  is a loop that has not returned.
\<close>

definition g_main_loop_run :: "event list \<Rightarrow> GlobalData \<Rightarrow> action list \<times> GlobalData option" where
  "g_main_loop_run es data =
     (case dispatch es True (data\<lparr>loop := (loop data)\<lparr>is_running := True\<rparr>\<rparr>) of
        (out, io, data') \<Rightarrow>
          (out, if is_running (loop data') then None else Some data'))"

text \<open>
  The command line as \<^verbatim>\<open>g_option_context_parse\<close> leaves it: the program name, the
  remaining positional arguments, and the three option variables with their defaults
  (\<^verbatim>\<open>NULL\<close>, \<^verbatim>\<open>0\<close>, \<^verbatim>\<open>GST_CLOCK_TIME_NONE\<close>) where an option was not given.
\<close>

record cmdline =
  argv0 :: string
  args :: "string list"
  clock_host :: "string option"
  clock_port :: gint
  base_time :: GstClockTime

definition argc :: "cmdline \<Rightarrow> nat" where
  "argc cl = 1 + length (args cl)"

text \<open>
  The command line as the process receives it, program name first, read against the
  option table \<^verbatim>\<open>opt_entries\<close>: whether the host option (\<^verbatim>\<open>-c\<close>,
  \<^verbatim>\<open>--clock-host\<close>) or the port option (\<^verbatim>\<open>-p\<close>, \<^verbatim>\<open>--clock-port\<close>) occurs in it,
  and whether every argument after the program name begins with a dash, so that none of
  them is a positional argument.
\<close>

definition host_option_given :: "string list \<Rightarrow> bool" where
  "host_option_given argv =
     list_ex (\<lambda>a. take 2 a = ''-c'' \<or> take 12 a = ''--clock-host'') (tl argv)"

definition port_option_given :: "string list \<Rightarrow> bool" where
  "port_option_given argv =
     list_ex (\<lambda>a. take 2 a = ''-p'' \<or> take 12 a = ''--clock-port'') (tl argv)"

definition only_options :: "string list \<Rightarrow> bool" where
  "only_options argv = list_all (\<lambda>a. take 1 a = ''-'') (tl argv)"

text \<open>
  What the outside world gives and answers during one run of the player: the command
  line, the option parser's result for it (\<open>Inl\<close> its error message), whether the
  network clock ever synchronises, the
  element the factory makes (\<open>None\<close> for \<^verbatim>\<open>NULL\<close>), the two URI helpers, the return of
  the first state change, the ids of the two watches, the contents of the two fields of
  \<^verbatim>\<open>data\<close> that the entry point never initialises, and the events the loop receives.
\<close>

record environment =
  command_line :: "string list"
  option_parse :: "string + cmdline"
  clock_syncs :: bool
  playbin_made :: "GstElement option"
  gst_uri_is_valid :: "string \<Rightarrow> bool"
  gst_filename_to_uri :: "string \<Rightarrow> string option"
  play_return :: GstStateChangeReturn
  bus_watch_id :: guint
  stdin_watch_id :: guint
  stack_buffering :: bool
  stack_is_live :: bool
  events :: "event list"

datatype exit_status = Exited int | Aborted

definition canonicalise_uri :: "environment \<Rightarrow> string \<Rightarrow> string option" where
  "canonicalise_uri env inp =
     (if gst_uri_is_valid env inp then Some inp else gst_filename_to_uri env inp)"

definition usage :: "string \<Rightarrow> action list" where
  "usage prog =
     [G_print ''Usage: %s -c netclock-host-IP -p netclock-host-port -b base-time <file>\<newline>''
        [ArgStr prog],
      G_print (''When running, pressing 'q' quits the application\<newline>'f' seeks ''
        @ ''backwards 10 seconds\<newline>'g' seeks forwards 10 seconds\<newline>'a' switches ''
        @ ''to the next audio track\<newline>'d' enables/disables subtitles\<newline>'s' switches ''
        @ ''to the next subtitle track\<newline>'v' enables/disables visualisations\<newline>''
        @ ''For this trivial example, you need to press enter after each command\<newline>'') []]"

text \<open>Lines 105 to 111 of the entry point: the network clock, then the pipeline.\<close>

definition sync_clock :: "cmdline \<Rightarrow> action list" where
  "sync_clock cl =
     [Net_client_clock_new (clock_host cl) (clock_port cl),
      Clock_wait_for_sync GST_CLOCK_TIME_NONE]"

definition build_pipeline :: "action list" where
  "build_pipeline =
     [G_print ''Network clock is synched to master\<newline>'' [],
      Element_factory_make ''playbin'' ''playbin'']"

text \<open>Lines 121 to 124: the base time given on the command line, if any.\<close>

definition base_time_override :: "cmdline \<Rightarrow> action list" where
  "base_time_override cl =
     (if base_time cl \<noteq> GST_CLOCK_TIME_NONE
      then [Element_set_start_time GST_CLOCK_TIME_NONE,
            Element_set_base_time (base_time cl)]
      else [])"

text \<open>Lines 113 to 175: from the new \<^verbatim>\<open>playbin\<close> to the installed watches.\<close>

definition start_playback :: "environment \<Rightarrow> cmdline \<Rightarrow> GstElement \<Rightarrow> action list \<times> GlobalData" where
  "start_playback env cl pb =
     (let uri = canonicalise_uri env (args cl ! 0);
          flags1 = flags pb OR PLAY_FLAGS_DOWNLOAD;
          sret = play_return env
      in ([Pipeline_use_clock, Clock_unref]
          @ base_time_override cl
          @ [Pipeline_set_latency (100 * GST_MSECOND),
             Object_set_uri uri,
             Object_set_int ''flags'' flags1,
             Bus_add_watch,
             Main_loop_new,
             Element_set_state GST_STATE_PLAYING,
             G_print ''Now playing %s\<newline>'' [str_arg uri]]
          @ (case sret of
               GST_STATE_CHANGE_FAILURE \<Rightarrow> []
             | GST_STATE_CHANGE_NO_PREROLL \<Rightarrow> [G_print ''Pipeline is live.\<newline>'' []]
             | GST_STATE_CHANGE_ASYNC \<Rightarrow> [G_print (''Prerolling...'' @ [CHR 0x0D]) []]
             | GST_STATE_CHANGE_SUCCESS \<Rightarrow> [])
          @ [Io_add_watch],
          \<lparr>loop = \<lparr>is_running = False\<rparr>,
           playbin = pb\<lparr>flags := flags1\<rparr>,
           bus_watch = bus_watch_id env,
           io_watch_id = stdin_watch_id env,
           buffering = stack_buffering env,
           is_live = (if sret = GST_STATE_CHANGE_NO_PREROLL then True else stack_is_live env)\<rparr>))"

definition cleanup :: "GlobalData \<Rightarrow> action list" where
  "cleanup data =
     [Source_remove (bus_watch data),
      Source_remove (io_watch_id data),
      Element_set_state GST_STATE_NULL,
      Playbin_unref,
      Main_loop_unref]"

text \<open>
  The player's \<^verbatim>\<open>main\<close>: the actions of the run and how the process ends; \<open>None\<close> is
  a process that has not ended (blocked in the wait for synchronisation, or in the loop).
\<close>

definition main :: "environment \<Rightarrow> action list \<times> exit_status option" where
  "main env =
     (case option_parse env of
        Inl message \<Rightarrow> ([G_error ''Error parsing options: %s'' [ArgStr message]], Some Aborted)
      | Inr cl \<Rightarrow>
          if argc cl < 2 \<or> clock_host cl = None \<or> clock_port cl = 0
          then (usage (argv0 cl), Some (Exited 1))
          else if \<not> clock_syncs env then (sync_clock cl, None)
          else
            (case playbin_made env of
               None \<Rightarrow>
                 (sync_clock cl @ build_pipeline
                    @ [G_print ''Failed to create element %s\<newline>'' [ArgStr ''playbin'']],
                  Some (Exited 1))
             | Some pb \<Rightarrow>
                 (case start_playback env cl pb of
                    (started, data) \<Rightarrow>
                      (case g_main_loop_run (events env) data of
                         (out, None) \<Rightarrow> (sync_clock cl @ build_pipeline @ started @ out, None)
                       | (out, Some data') \<Rightarrow>
                           (sync_clock cl @ build_pipeline @ started @ out @ cleanup data',
                            Some (Exited 0))))))"

text \<open>
  A run gets as far as the main loop when the options parse, the three required values
  are there, the clock synchronises and \<^verbatim>\<open>playbin\<close> can be made.
\<close>

definition reaches_loop :: "environment \<Rightarrow> bool" where
  "reaches_loop env =
     (case option_parse env of
        Inl message \<Rightarrow> False
      | Inr cl \<Rightarrow>
          \<not> (argc cl < 2 \<or> clock_host cl = None \<or> clock_port cl = 0)
          \<and> clock_syncs env \<and> playbin_made env \<noteq> None)"

text \<open>Views of a run: the commands that touch the pipeline, and those that set its times.\<close>

fun is_pipeline_action :: "action \<Rightarrow> bool" where
  "is_pipeline_action (Element_factory_make t n) = True"
| "is_pipeline_action Pipeline_use_clock = True"
| "is_pipeline_action (Element_set_start_time t) = True"
| "is_pipeline_action (Element_set_base_time t) = True"
| "is_pipeline_action (Pipeline_set_latency t) = True"
| "is_pipeline_action (Object_set_uri u) = True"
| "is_pipeline_action (Object_set_int n v) = True"
| "is_pipeline_action Bus_add_watch = True"
| "is_pipeline_action (Element_set_state st) = True"
| "is_pipeline_action (Element_seek_simple_flush p) = True"
| "is_pipeline_action Bin_recalculate_latency = True"
| "is_pipeline_action Playbin_unref = True"
| "is_pipeline_action a = False"

fun is_time_setting :: "action \<Rightarrow> bool" where
  "is_time_setting (Element_set_start_time t) = True"
| "is_time_setting (Element_set_base_time t) = True"
| "is_time_setting a = False"

fun is_print :: "action \<Rightarrow> bool" where
  "is_print (G_print f as) = True"
| "is_print (G_printerr f as) = True"
| "is_print a = False"

section \<open>The clock provider\<close>






section \<open>Sample runs\<close>

text \<open>
  Concrete inputs on which the theorems below are instantiated: a controller state
  with given buffering and liveness flags, a command line with all three options and a
  file, and runs of the player and of the provider over a given list of events.
\<close>

definition sample_playbin :: GstElement where
  "sample_playbin =
     \<lparr>flags = 0x17, current_audio = 0, n_audio = 1, current_text = 0, n_text = 2\<rparr>"

definition sample_data :: "bool \<Rightarrow> bool \<Rightarrow> GlobalData" where
  "sample_data b l =
     \<lparr>loop = \<lparr>is_running = True\<rparr>, playbin = sample_playbin,
      bus_watch = 1, io_watch_id = 2, buffering = b, is_live = l\<rparr>"

definition sample_cmdline :: cmdline where
  "sample_cmdline =
     \<lparr>argv0 = ''netclock-playback'', args = [''movie.mkv''],
      clock_host = Some ''192.168.1.10'', clock_port = 8554, base_time = 1000000\<rparr>"

definition sample_run :: "event list \<Rightarrow> environment" where
  "sample_run es =
     \<lparr>command_line =
        [''netclock-playback'', ''-c'', ''192.168.1.10'', ''-p'', ''8554'',
         ''-b'', ''1000000'', ''movie.mkv''],
      option_parse = Inr sample_cmdline,
      clock_syncs = True,
      playbin_made = Some sample_playbin,
      gst_uri_is_valid = (\<lambda>s. False),
      gst_filename_to_uri = (\<lambda>s. Some (''file:///media/'' @ s)),
      play_return = GST_STATE_CHANGE_ASYNC,
      bus_watch_id = 1,
      stdin_watch_id = 2,
      stack_buffering = False,
      stack_is_live = False,
      events = es\<rparr>"

text \<open>A command line whose only argument is an option the table does not have.\<close>

definition bogus_run :: environment where
  "bogus_run =
     (sample_run [])
       \<lparr>command_line := [''netclock-playback'', ''--bogus''],
        option_parse := Inl ''Unknown option --bogus''\<rparr>"



section \<open>Properties of the bus handler\<close>

text \<open>
  Claim C1 (buffering hysteresis). For a buffering message carrying \<open>percent\<close>: on a
  session that is not live and not buffering, any percent below 100 issues exactly one
  state command, \<open>PAUSED\<close>, and sets the buffering flag; on a session that is not live
  and is buffering, percent 100 issues exactly one state command, \<open>PLAYING\<close>, and
  clears the flag, and every other percent issues none and changes nothing; on a live
  session no percent issues a state command or changes the state. The sequence
  90, 95, 99, 100 on a session that is not live and not buffering gives one \<open>PAUSED\<close>
  at 90 and one \<open>PLAYING\<close> at 100; on a live session it gives nothing.
\<close>

theorem buffering_hysteresis:
  "(\<not> is_live data \<and> \<not> buffering data \<and> percent <s 100 \<longrightarrow>
      (case handle_bus_msg (GST_MESSAGE_BUFFERING percent) data of
         (out, data', keep) \<Rightarrow>
           state_commands out = [GST_STATE_PAUSED] \<and> data' = data\<lparr>buffering := True\<rparr>))
   \<and> (\<not> is_live data \<and> buffering data \<longrightarrow>
      (case handle_bus_msg (GST_MESSAGE_BUFFERING percent) data of
         (out, data', keep) \<Rightarrow>
           if percent = 100
           then state_commands out = [GST_STATE_PLAYING] \<and> data' = data\<lparr>buffering := False\<rparr>
           else state_commands out = [] \<and> data' = data))
   \<and> (is_live data \<longrightarrow>
      (case handle_bus_msg (GST_MESSAGE_BUFFERING percent) data of
         (out, data', keep) \<Rightarrow> state_commands out = [] \<and> data' = data))
   \<and> (\<not> is_live data \<and> \<not> buffering data \<longrightarrow>
      deliver (map GST_MESSAGE_BUFFERING [90, 95, 99, 100]) data =
        ([[GST_STATE_PAUSED], [], [], [GST_STATE_PLAYING]], data))
   \<and> (is_live data \<longrightarrow>
      deliver (map GST_MESSAGE_BUFFERING [90, 95, 99, 100]) data = ([[], [], [], []], data))"
  by (auto simp add: Let_def)

theorem buffering_hysteresis_witness:
  "\<not> is_live (sample_data False False) \<and> \<not> buffering (sample_data False False)
   \<and> (90 :: gint) <s 100
   \<and> handle_bus_msg (GST_MESSAGE_BUFFERING 90) (sample_data False False) =
       ([G_print ''\<newline>'' [],
         G_print (''Buffering... %d%%  '' @ [CHR 0x0D]) [ArgInt 90],
         Element_set_state GST_STATE_PAUSED], sample_data True False, True)
   \<and> deliver (map GST_MESSAGE_BUFFERING [90, 95, 99, 100]) (sample_data False False) =
       ([[GST_STATE_PAUSED], [], [], [GST_STATE_PLAYING]], sample_data False False)
   \<and> \<not> is_live (sample_data True False) \<and> buffering (sample_data True False)
   \<and> handle_bus_msg (GST_MESSAGE_BUFFERING 100) (sample_data True False) =
       ([G_print (''Buffering... %d%%  '' @ [CHR 0x0D]) [ArgInt 100],
         Element_set_state GST_STATE_PLAYING], sample_data False False, True)
   \<and> state_commands (fst (handle_bus_msg (GST_MESSAGE_BUFFERING 99) (sample_data True False)))
       = []
   \<and> is_live (sample_data False True)
   \<and> deliver (map GST_MESSAGE_BUFFERING [90, 95, 99, 100]) (sample_data False True) =
       ([[], [], [], []], sample_data False True)"
  using
    buffering_hysteresis [of "sample_data False False" 90]
    buffering_hysteresis [of "sample_data True False" 100]
    buffering_hysteresis [of "sample_data True False" 99]
    buffering_hysteresis [of "sample_data False True" 90]
  by (simp add: sample_data_def)

text \<open>
  Claim C3 (clock-loss recovery). A clock-lost message makes the handler issue, after
  its console line, exactly two state commands, \<open>PAUSED\<close> then \<open>PLAYING\<close>, one right
  after the other, and leaves the controller state (buffering and liveness flags
  included) as it was. The handler does not look at the playback state, so this holds
  in particular while playing.
\<close>

theorem clock_lost_recovery:
  "handle_bus_msg GST_MESSAGE_CLOCK_LOST data =
     ([G_print ''Clock lost, selecting a new one\<newline>'' [],
       Element_set_state GST_STATE_PAUSED,
       Element_set_state GST_STATE_PLAYING], data, True)
   \<and> state_commands (fst (handle_bus_msg GST_MESSAGE_CLOCK_LOST data))
       = [GST_STATE_PAUSED, GST_STATE_PLAYING]
   \<and> deliver [GST_MESSAGE_CLOCK_LOST] data = ([[GST_STATE_PAUSED, GST_STATE_PLAYING]], data)"
  by simp

section \<open>Properties of the interactive commands\<close>

lemma ten_seconds: "10 * GST_SECOND = (10000000000 :: 64 word)"
  by (simp add: GST_SECOND_def)

lemma sint_forward:
  assumes "sint (p :: 64 word) \<le> 9223372026854775807"
  shows "sint (p + 10000000000) = sint p + 10000000000"
proof -
  have lo: "- (2 ^ 63) \<le> sint p" using sint_ge [of p] by simp
  have "sint (p + 10000000000) = signed_take_bit 63 (sint p + sint (10000000000 :: 64 word))"
    by (simp add: sint_word_ariths)
  also have "sint (10000000000 :: 64 word) = 10000000000" by simp
  also have "signed_take_bit 63 (sint p + 10000000000) = sint p + 10000000000"
    using assms lo by (simp add: signed_take_bit_int_eq_self)
  finally show ?thesis .
qed

lemma sint_backward:
  assumes "(10000000000 :: 64 word) <s p"
  shows "sint (p - 10000000000) = sint p - 10000000000"
proof -
  have gt: "10000000000 < sint p" using assms by (simp add: word_sless_alt)
  have hi: "sint p < 2 ^ 63" using sint_lt [of p] by simp
  have "sint (p - 10000000000) = signed_take_bit 63 (sint p - sint (10000000000 :: 64 word))"
    by (simp add: sint_word_ariths)
  also have "sint (10000000000 :: 64 word) = 10000000000" by simp
  also have "signed_take_bit 63 (sint p - 10000000000) = sint p - 10000000000"
    using gt hi by (simp add: signed_take_bit_int_eq_self)
  finally show ?thesis .
qed

text \<open>
  Claim C2 (seek clamping). When the position query answers \<open>P\<close>, a forward seek issues
  one flushing seek to \<open>P + 10 * GST_SECOND\<close>; a backward seek issues one flushing seek
  to \<open>P - 10 * GST_SECOND\<close> when \<open>P\<close> is more than ten seconds and to 0 otherwise
  (5 s gives 0, 30 s gives 20 s). The controller state is returned unchanged. The sums
  are the program's, on \<^verbatim>\<open>gint64\<close>; read as integers of nanoseconds, the forward
  target is \<open>P\<close> plus ten seconds whenever that sum fits a \<^verbatim>\<open>gint64\<close>, and the
  backward target is \<open>P\<close> minus ten seconds whenever \<open>P\<close> exceeds ten seconds.
\<close>

theorem seek_clamping:
  "seek data True (Some P) = ([Element_seek_simple_flush (P + 10 * GST_SECOND)], data)
   \<and> seek data False (Some P) =
       ([Element_seek_simple_flush
           (if 10 * GST_SECOND <s P then P - 10 * GST_SECOND else 0)], data)
   \<and> seek data False (Some (5 * GST_SECOND)) = ([Element_seek_simple_flush 0], data)
   \<and> seek data False (Some (30 * GST_SECOND)) =
       ([Element_seek_simple_flush (20 * GST_SECOND)], data)
   \<and> (sint P \<le> 2 ^ 63 - 1 - 10 * 1000000000 \<longrightarrow>
        (\<exists>Q. seek data True (Some P) = ([Element_seek_simple_flush Q], data)
           \<and> sint Q = sint P + 10 * 1000000000))
   \<and> (10 * 1000000000 < sint P \<longrightarrow>
        (\<exists>Q. seek data False (Some P) = ([Element_seek_simple_flush Q], data)
           \<and> sint Q = sint P - 10 * 1000000000))
   \<and> (sint P \<le> 10 * 1000000000 \<longrightarrow>
        seek data False (Some P) = ([Element_seek_simple_flush 0], data))"
proof -
  have fwd: "sint P \<le> 2 ^ 63 - 1 - 10 * 1000000000 \<Longrightarrow>
      sint (P + 10000000000) = sint P + 10 * 1000000000"
    using sint_forward [of P] by simp
  have bwd: "10 * 1000000000 < sint P \<Longrightarrow>
      sint (P - 10000000000) = sint P - 10 * 1000000000"
    using sint_backward [of P] by (simp add: word_sless_alt)
  have cmp: "(10000000000 <s P) = (10 * 1000000000 < sint P)"
    by (simp add: word_sless_alt)
  show ?thesis
    using fwd bwd by (simp add: seek_def ten_seconds cmp GST_SECOND_def)
qed

theorem seek_clamping_witness:
  "sint (30 * GST_SECOND) \<le> 2 ^ 63 - 1 - 10 * 1000000000
   \<and> 10 * 1000000000 < sint (30 * GST_SECOND)
   \<and> seek (sample_data False False) True (Some (30 * GST_SECOND)) =
       ([Element_seek_simple_flush 40000000000], sample_data False False)
   \<and> seek (sample_data False False) False (Some (30 * GST_SECOND)) =
       ([Element_seek_simple_flush 20000000000], sample_data False False)
   \<and> sint (5 * GST_SECOND) \<le> 10 * 1000000000
   \<and> seek (sample_data False False) False (Some (5 * GST_SECOND)) =
       ([Element_seek_simple_flush 0], sample_data False False)"
  using
    seek_clamping [of "sample_data False False" "30 * GST_SECOND"]
    seek_clamping [of "sample_data False False" "5 * GST_SECOND"]
  by (simp add: GST_SECOND_def)

text \<open>
  Claim C9 (failed position query). When the position query fails, \<open>seek\<close> issues
  nothing, whatever the direction, and returns the controller state unchanged; so do
  the two key commands that seek.
\<close>

theorem seek_query_failure:
  "seek data forward None = ([], data)
   \<and> io_callback (G_IO_STATUS_NORMAL CHR ''f'') None data = ([], data, True)
   \<and> io_callback (G_IO_STATUS_NORMAL CHR ''g'') None data = ([], data, True)"
  by (simp add: seek_def)

lemma subtitles_bit: "bit PLAY_FLAGS_SUBTITLES n = (n = 2)"
proof -
  have eq: "PLAY_FLAGS_SUBTITLES = (2 ^ 2 :: gint)"
    by (simp add: PLAY_FLAGS_SUBTITLES_def)
  have "bit (2 ^ 2 :: gint) n = (n = 2)"
    by (simp only: bit_exp_iff) auto
  with eq show ?thesis
    by (simp only:)
qed

lemma or_subtitles_bit:
  "bit ((f :: gint) OR PLAY_FLAGS_SUBTITLES) n = (n = 2 \<or> bit f n)"
  by (auto simp add: bit_or_iff subtitles_bit)

lemma subtitles_nonzero: "PLAY_FLAGS_SUBTITLES \<noteq> 0"
  by (simp add: PLAY_FLAGS_SUBTITLES_def)

lemma and_not_subtitles_zero:
  "((f :: gint) AND NOT PLAY_FLAGS_SUBTITLES) AND PLAY_FLAGS_SUBTITLES = 0"
  by (simp add: and.assoc)

text \<open>
  Claim C10 (next subtitle). \<open>next_subtitle\<close> stores the old flags with the subtitles
  bit set: that bit (bit 2) is set afterwards and every other bit is as before. The
  track index becomes \<open>current + 1\<close> when that is below the track count (signed
  comparison on \<^verbatim>\<open>gint\<close>) and 0 otherwise. Key \<open>s\<close> runs it; after key \<open>d\<close> has
  switched subtitles off, key \<open>s\<close> switches them on again.
\<close>

theorem next_subtitle_enables:
  "(case next_subtitle data of
      (out, data') \<Rightarrow>
        flags (playbin data') = flags (playbin data) OR PLAY_FLAGS_SUBTITLES
        \<and> flags (playbin data') AND PLAY_FLAGS_SUBTITLES \<noteq> 0
        \<and> (\<forall>n. n \<noteq> 2 \<longrightarrow> bit (flags (playbin data')) n = bit (flags (playbin data)) n)
        \<and> current_text (playbin data') =
            (if current_text (playbin data) + 1 <s n_text (playbin data)
             then current_text (playbin data) + 1 else 0)
        \<and> out = [Object_set_int ''current-text'' (current_text (playbin data')),
                  Object_set_int ''flags'' (flags (playbin data')),
                  G_print ''Now showing subtitles track %d of %d\<newline>''
                    [ArgInt (current_text (playbin data')), ArgInt (n_text (playbin data))]])
   \<and> io_callback (G_IO_STATUS_NORMAL CHR ''s'') query data =
       (fst (next_subtitle data), snd (next_subtitle data), True)
   \<and> (flags (playbin data) AND PLAY_FLAGS_SUBTITLES \<noteq> 0 \<longrightarrow>
        (case io_callback (G_IO_STATUS_NORMAL CHR ''d'') query data of
           (out1, data1, keep1) \<Rightarrow>
             flags (playbin data1) AND PLAY_FLAGS_SUBTITLES = 0
             \<and> (case io_callback (G_IO_STATUS_NORMAL CHR ''s'') query data1 of
                  (out2, data2, keep2) \<Rightarrow>
                    flags (playbin data2) AND PLAY_FLAGS_SUBTITLES \<noteq> 0)))"
proof -
  have a: "\<not> (n_text (playbin data) \<le>s current_text (playbin data) + 1)
      \<longleftrightarrow> current_text (playbin data) + 1 <s n_text (playbin data)"
    by (simp add: word_sless_alt word_sle_eq not_le)
  show ?thesis
    by (cases "current_text (playbin data) + 1 <s n_text (playbin data)")
      (simp_all add: a [symmetric] next_subtitle_def toggle_subtitle_def Let_def
        or_subtitles_bit subtitles_nonzero and_not_subtitles_zero)
qed

theorem next_subtitle_enables_witness:
  "flags (playbin (sample_data False False)) AND PLAY_FLAGS_SUBTITLES \<noteq> 0
   \<and> (case io_callback (G_IO_STATUS_NORMAL CHR ''d'') None (sample_data False False) of
        (out1, data1, keep1) \<Rightarrow>
          flags (playbin data1) = 0x13
          \<and> (case io_callback (G_IO_STATUS_NORMAL CHR ''s'') None data1 of
               (out2, data2, keep2) \<Rightarrow>
                 flags (playbin data2) = 0x17 \<and> current_text (playbin data2) = 1))
   \<and> (1 :: nat) \<noteq> 2
   \<and> bit (flags (playbin (snd (next_subtitle
         ((sample_data False False)
            \<lparr>playbin := sample_playbin\<lparr>flags := 0x13, current_text := 1\<rparr>\<rparr>))))) 1
   \<and> current_text (playbin (snd (next_subtitle
         ((sample_data False False)
            \<lparr>playbin := sample_playbin\<lparr>flags := 0x13, current_text := 1\<rparr>\<rparr>)))) = 0"
  using
    next_subtitle_enables [of "sample_data False False" None]
    next_subtitle_enables [of "(sample_data False False)
        \<lparr>playbin := sample_playbin\<lparr>flags := 0x13, current_text := 1\<rparr>\<rparr>" None]
  by (simp add: next_subtitle_def toggle_subtitle_def PLAY_FLAGS_SUBTITLES_def Let_def
      word_sle_eq word_sless_alt sample_data_def sample_playbin_def)

section \<open>Properties of the main loop\<close>

lemma dispatch_stopped:
  "\<not> is_running (loop data) \<Longrightarrow> dispatch es io data = ([], io, data)"
proof (cases es)
  case Nil
  then show ?thesis by simp
next
  case (Cons e es')
  assume "\<not> is_running (loop data)"
  with Cons show ?thesis by (cases e) simp_all
qed

lemma dispatch_append:
  "dispatch (es1 @ es2) io data =
     (case dispatch es1 io data of
        (out1, io1, data1) \<Rightarrow>
          (case dispatch es2 io1 data1 of
             (out2, r) \<Rightarrow> (out1 @ out2, r)))"
proof (induction es1 io data rule: dispatch.induct)
  case (1 io data)
  then show ?case by simp
next
  case (2 m es io data)
  then show ?case
    by (simp add: dispatch_stopped split: prod.splits)
next
  case (3 r query es io data)
  then show ?case
    by (simp add: dispatch_stopped split: prod.splits)
qed

lemma handle_bus_msg_times: "filter is_time_setting (fst (handle_bus_msg m data)) = []"
  by (cases m) (simp_all add: tag_lines_def Let_def split: option.splits prod.splits)

lemma io_callback_times: "filter is_time_setting (fst (io_callback r query data)) = []"
  by (cases r)
    (simp_all add: seek_def next_audio_def toggle_subtitle_def next_subtitle_def
      toggle_vis_def Let_def split: option.splits prod.splits)

lemma dispatch_times: "filter is_time_setting (fst (dispatch es io data)) = []"
proof (induction es io data rule: dispatch.induct)
  case (1 io data)
  then show ?case by simp
next
  case (2 m es io data)
  show ?case
  proof (cases "is_running (loop data)")
    case False
    then show ?thesis by simp
  next
    case True
    obtain out data' keep where h: "handle_bus_msg m data = (out, data', keep)"
      by (cases "handle_bus_msg m data") auto
    obtain out' r where d: "dispatch es io data' = (out', r)"
      by (cases "dispatch es io data'") auto
    from h have "filter is_time_setting out = []"
      using handle_bus_msg_times [of m data] by simp
    moreover from 2 True h d have "filter is_time_setting out' = []"
      by fastforce
    ultimately show ?thesis using True h d by simp
  qed
next
  case (3 r query es io data)
  show ?case
  proof (cases "is_running (loop data)")
    case False
    then show ?thesis by simp
  next
    case True
    show ?thesis
    proof (cases io)
      case False
      with 3 True show ?thesis by simp
    next
      case io: True
      obtain out data' keep where h: "io_callback r query data = (out, data', keep)"
        by (cases "io_callback r query data") auto
      obtain out' r' where d: "dispatch es keep data' = (out', r')"
        by (cases "dispatch es keep data'") auto
      from h have "filter is_time_setting out = []"
        using io_callback_times [of r query data] by simp
      moreover from 3 True io h d have "filter is_time_setting out' = []"
        by fastforce
      ultimately show ?thesis using True io h d by simp
    qed
  qed
qed

lemma handle_bus_msg_watches:
  "bus_watch (fst (snd (handle_bus_msg m data))) = bus_watch data
   \<and> io_watch_id (fst (snd (handle_bus_msg m data))) = io_watch_id data"
  by (cases m) (simp_all add: g_main_loop_quit_def Let_def)

lemma io_callback_watches:
  "bus_watch (fst (snd (io_callback r query data))) = bus_watch data
   \<and> io_watch_id (fst (snd (io_callback r query data))) = io_watch_id data"
  by (cases r)
    (simp_all add: g_main_loop_quit_def seek_def next_audio_def toggle_subtitle_def
      next_subtitle_def toggle_vis_def Let_def split: option.splits prod.splits)

lemma dispatch_watches:
  "bus_watch (snd (snd (dispatch es io data))) = bus_watch data
   \<and> io_watch_id (snd (snd (dispatch es io data))) = io_watch_id data"
proof (induction es io data rule: dispatch.induct)
  case (1 io data)
  then show ?case by simp
next
  case (2 m es io data)
  show ?case
  proof (cases "is_running (loop data)")
    case False
    then show ?thesis by simp
  next
    case True
    obtain out data' keep where h: "handle_bus_msg m data = (out, data', keep)"
      by (cases "handle_bus_msg m data") auto
    from h have "bus_watch data' = bus_watch data \<and> io_watch_id data' = io_watch_id data"
      using handle_bus_msg_watches [of m data] by simp
    with 2 True h show ?thesis
      by (cases "dispatch es io data'") fastforce
  qed
next
  case (3 r query es io data)
  show ?case
  proof (cases "is_running (loop data) \<and> io")
    case False
    with 3 show ?thesis by auto
  next
    case True
    obtain out data' keep where h: "io_callback r query data = (out, data', keep)"
      by (cases "io_callback r query data") auto
    from h have "bus_watch data' = bus_watch data \<and> io_watch_id data' = io_watch_id data"
      using io_callback_watches [of r query data] by simp
    with 3 True h show ?thesis
      by (cases "dispatch es keep data'") fastforce
  qed
qed

section \<open>Properties of whole runs\<close>

lemma main_reaches:
  assumes "option_parse env = Inr cl" and "reaches_loop env" and "playbin_made env = Some pb"
  shows "main env =
    (case start_playback env cl pb of
       (started, data) \<Rightarrow>
         (case dispatch (events env) True (data\<lparr>loop := (loop data)\<lparr>is_running := True\<rparr>\<rparr>) of
            (out, io, data') \<Rightarrow>
              if is_running (loop data')
              then (sync_clock cl @ build_pipeline @ started @ out, None)
              else (sync_clock cl @ build_pipeline @ started @ out @ cleanup data',
                    Some (Exited 0))))"
  using assms
  by (simp add: main_def reaches_loop_def g_main_loop_run_def split: prod.splits)

lemma main_not_reaches:
  assumes "\<not> reaches_loop env"
  shows "\<forall>a \<in> set (fst (main env)). \<not> is_pipeline_action a \<or> a = Element_factory_make ''playbin'' ''playbin''"
    and "filter is_time_setting (fst (main env)) = []"
    and "state_commands (fst (main env)) = []"
  using assms
  by (auto simp add: main_def reaches_loop_def usage_def sync_clock_def build_pipeline_def
      split: sum.splits option.splits)

lemma reaches_loopE:
  assumes "reaches_loop env"
  obtains cl pb where "option_parse env = Inr cl" and "playbin_made env = Some pb"
    and "args cl \<noteq> []" and "clock_host cl \<noteq> None" and "clock_port cl \<noteq> 0" and "clock_syncs env"
  using assms
  by (auto simp add: reaches_loop_def argc_def split: sum.splits)

lemma state_commands_append: "state_commands (xs @ ys) = state_commands xs @ state_commands ys"
  by (induction xs rule: state_commands.induct) simp_all

lemma start_playback_actions:
  "fst (start_playback env cl pb) =
     [Pipeline_use_clock, Clock_unref] @ base_time_override cl
       @ [Pipeline_set_latency (100 * GST_MSECOND),
          Object_set_uri (canonicalise_uri env (args cl ! 0)),
          Object_set_int ''flags'' (flags pb OR PLAY_FLAGS_DOWNLOAD),
          Bus_add_watch, Main_loop_new]
       @ [Element_set_state GST_STATE_PLAYING]
       @ ([G_print ''Now playing %s\<newline>'' [str_arg (canonicalise_uri env (args cl ! 0))]]
          @ (case play_return env of
               GST_STATE_CHANGE_FAILURE \<Rightarrow> []
             | GST_STATE_CHANGE_NO_PREROLL \<Rightarrow> [G_print ''Pipeline is live.\<newline>'' []]
             | GST_STATE_CHANGE_ASYNC \<Rightarrow> [G_print (''Prerolling...'' @ [CHR 0x0D]) []]
             | GST_STATE_CHANGE_SUCCESS \<Rightarrow> [])
          @ [Io_add_watch])"
  by (simp add: start_playback_def Let_def)

lemma start_playback_watches:
  "bus_watch (snd (start_playback env cl pb)) = bus_watch_id env
   \<and> io_watch_id (snd (start_playback env cl pb)) = stdin_watch_id env"
  by (simp add: start_playback_def Let_def)

lemma gated_prefix:
  assumes "t0 @ rest = pre @ a # post" and "P a" and "\<forall>x \<in> set t0. \<not> P x"
  shows "\<exists>pre'. pre = t0 @ pre'"
proof -
  from assms(1) obtain us where
    "(t0 = pre @ us \<and> us @ rest = a # post) \<or> (t0 @ us = pre \<and> rest = us @ a # post)"
    by (auto simp add: append_eq_append_conv2)
  then show ?thesis
  proof
    assume h: "t0 = pre @ us \<and> us @ rest = a # post"
    show ?thesis
    proof (cases us)
      case Nil
      with h show ?thesis by simp
    next
      case (Cons u us')
      with h have "a \<in> set t0" by simp
      with assms(2,3) show ?thesis by blast
    qed
  next
    assume "t0 @ us = pre \<and> rest = us @ a # post"
    then show ?thesis by blast
  qed
qed

lemma sync_clock_not_pipeline: "\<forall>x \<in> set (sync_clock cl). \<not> is_pipeline_action x"
  by (simp add: sync_clock_def)

lemma main_starts_with_wait:
  assumes "option_parse env = Inr cl" and "args cl \<noteq> []" and "clock_host cl \<noteq> None"
    and "clock_port cl \<noteq> 0"
  shows "\<exists>rest. fst (main env) = sync_clock cl @ rest"
  using assms
  by (auto simp add: main_def argc_def split: option.splits prod.splits)

lemma main_invalid_no_pipeline:
  assumes "option_parse env = Inl e \<or> (option_parse env = Inr cl \<and> (args cl = [] \<or> clock_host cl = None \<or> clock_port cl = 0))"
  shows "\<forall>x \<in> set (fst (main env)). \<not> is_pipeline_action x"
  using assms
  by (auto simp add: main_def argc_def usage_def)

lemma main_unsynced:
  assumes "option_parse env = Inr cl" and "args cl \<noteq> []" and "clock_host cl \<noteq> None"
    and "clock_port cl \<noteq> 0" and "\<not> clock_syncs env"
  shows "main env = (sync_clock cl, None)"
  using assms by (simp add: main_def argc_def)

text \<open>The sample run that ends at end of stream, evaluated.\<close>

lemmas run_defs = main_def sample_run_def sample_cmdline_def sample_playbin_def argc_def
      sync_clock_def build_pipeline_def
      start_playback_def base_time_override_def canonicalise_uri_def g_main_loop_run_def
      g_main_loop_quit_def cleanup_def GST_CLOCK_TIME_NONE_def GST_MSECOND_def
      PLAY_FLAGS_DOWNLOAD_def Let_def

lemma sample_eos_run:
  "main (sample_run [Bus_message GST_MESSAGE_EOS]) =
     ([Net_client_clock_new (Some ''192.168.1.10'') 8554,
       Clock_wait_for_sync GST_CLOCK_TIME_NONE,
       G_print ''Network clock is synched to master\<newline>'' [],
       Element_factory_make ''playbin'' ''playbin'', Pipeline_use_clock,
       Clock_unref, Element_set_start_time GST_CLOCK_TIME_NONE,
       Element_set_base_time 1000000, Pipeline_set_latency 100000000,
       Object_set_uri (Some ''file:///media/movie.mkv''),
       Object_set_int ''flags'' 151, Bus_add_watch, Main_loop_new,
       Element_set_state GST_STATE_PLAYING,
       G_print ''Now playing %s\<newline>'' [ArgStr ''file:///media/movie.mkv''],
       G_print (''Prerolling...'' @ [CHR 0x0D]) [],
       Io_add_watch, G_print ''Finished playback. Exiting.\<newline>'' [],
       Main_loop_quit, Source_remove 1, Source_remove 2,
       Element_set_state GST_STATE_NULL, Playbin_unref, Main_loop_unref],
      Some (Exited 0))"
  by (simp add: main_def sample_run_def sample_cmdline_def sample_playbin_def argc_def
      sync_clock_def build_pipeline_def
      start_playback_def base_time_override_def canonicalise_uri_def g_main_loop_run_def
      g_main_loop_quit_def cleanup_def GST_CLOCK_TIME_NONE_def GST_MSECOND_def
      PLAY_FLAGS_DOWNLOAD_def Let_def)

lemma sample_reaches_loop: "reaches_loop (sample_run es)"
  by (simp add: reaches_loop_def sample_run_def sample_cmdline_def argc_def)

lemma pipeline_after_wait:
  assumes t: "fst (main env) = pre @ a # post" and a: "is_pipeline_action a"
  shows "clock_syncs env \<and> Clock_wait_for_sync GST_CLOCK_TIME_NONE \<in> set pre"
proof -
  from t have a_in: "a \<in> set (fst (main env))" by simp
  show ?thesis
  proof (cases "option_parse env")
    case (Inl e)
    then have "\<forall>x \<in> set (fst (main env)). \<not> is_pipeline_action x"
      using main_invalid_no_pipeline [of env e] by simp
    with a_in a show ?thesis by blast
  next
    case (Inr cl)
    show ?thesis
    proof (cases "args cl = [] \<or> clock_host cl = None \<or> clock_port cl = 0")
      case True
      with Inr have "\<forall>x \<in> set (fst (main env)). \<not> is_pipeline_action x"
        using main_invalid_no_pipeline [of env _ cl] by simp
      with a_in a show ?thesis by blast
    next
      case False
      then have ok: "args cl \<noteq> []" "clock_host cl \<noteq> None" "clock_port cl \<noteq> 0"
        by simp_all
      have synced: "clock_syncs env"
      proof (rule ccontr)
        assume "\<not> clock_syncs env"
        with Inr ok have "fst (main env) = sync_clock cl" by (simp add: main_unsynced)
        with a_in a sync_clock_not_pipeline [of cl] show False by auto
      qed
      from Inr ok obtain rest where "fst (main env) = sync_clock cl @ rest"
        using main_starts_with_wait by blast
      with t have "sync_clock cl @ rest = pre @ a # post" by simp
      with a sync_clock_not_pipeline [of cl] obtain pre' where "pre = sync_clock cl @ pre'"
        using gated_prefix [of "sync_clock cl" rest pre a post is_pipeline_action] by blast
      then have "Clock_wait_for_sync GST_CLOCK_TIME_NONE \<in> set pre"
        by (simp add: sync_clock_def)
      with synced show ?thesis by simp
    qed
  qed
qed

lemma unsynced_no_state_commands:
  assumes "\<not> clock_syncs env"
  shows "state_commands (fst (main env)) = []"
proof -
  from assms have "\<not> reaches_loop env"
    by (simp add: reaches_loop_def split: sum.splits)
  then show ?thesis
    by (rule main_not_reaches)
qed

text \<open>
  Claim C4 (synchronisation gate). In every run of the player, each command on the
  pipeline, the making of \<^verbatim>\<open>playbin\<close> and every state command included, comes after
  the wait for synchronisation, which is called without a timeout
  (\<open>GST_CLOCK_TIME_NONE\<close>), and occurs only in runs where the clock did synchronise.
  When the clock never synchronises the run is the two clock calls and nothing else:
  the process stays blocked in the wait and no state command is ever issued.
\<close>

theorem synchronisation_gate:
  "(\<forall>pre a post. fst (main env) = pre @ a # post \<and> is_pipeline_action a \<longrightarrow>
      clock_syncs env \<and> Clock_wait_for_sync GST_CLOCK_TIME_NONE \<in> set pre)
   \<and> (\<forall>cl. option_parse env = Inr cl \<and> args cl \<noteq> [] \<and> clock_host cl \<noteq> None
         \<and> clock_port cl \<noteq> 0 \<and> \<not> clock_syncs env \<longrightarrow>
       main env = ([Net_client_clock_new (clock_host cl) (clock_port cl),
                    Clock_wait_for_sync GST_CLOCK_TIME_NONE], None))
   \<and> (\<not> clock_syncs env \<longrightarrow> state_commands (fst (main env)) = [])"
proof -
  have two: "main env = ([Net_client_clock_new (clock_host cl) (clock_port cl),
                    Clock_wait_for_sync GST_CLOCK_TIME_NONE], None)"
    if "option_parse env = Inr cl \<and> args cl \<noteq> [] \<and> clock_host cl \<noteq> None
         \<and> clock_port cl \<noteq> 0 \<and> \<not> clock_syncs env" for cl
    using that main_unsynced [of env cl] by (simp add: sync_clock_def)
  from pipeline_after_wait [of env] two unsynced_no_state_commands [of env]
  show ?thesis by blast
qed

theorem synchronisation_gate_witness:
  "fst (main (sample_run [Bus_message GST_MESSAGE_EOS])) =
     [Net_client_clock_new (Some ''192.168.1.10'') 8554,
      Clock_wait_for_sync GST_CLOCK_TIME_NONE,
      G_print ''Network clock is synched to master\<newline>'' [],
      Element_factory_make ''playbin'' ''playbin'', Pipeline_use_clock,
      Clock_unref, Element_set_start_time GST_CLOCK_TIME_NONE,
      Element_set_base_time 1000000, Pipeline_set_latency 100000000,
      Object_set_uri (Some ''file:///media/movie.mkv''),
      Object_set_int ''flags'' 151, Bus_add_watch, Main_loop_new]
     @ Element_set_state GST_STATE_PLAYING
     # [G_print ''Now playing %s\<newline>'' [ArgStr ''file:///media/movie.mkv''],
        G_print (''Prerolling...'' @ [CHR 0x0D]) [],
        Io_add_watch, G_print ''Finished playback. Exiting.\<newline>'' [],
        Main_loop_quit, Source_remove 1, Source_remove 2,
        Element_set_state GST_STATE_NULL, Playbin_unref, Main_loop_unref]
   \<and> is_pipeline_action (Element_set_state GST_STATE_PLAYING)
   \<and> clock_syncs (sample_run [Bus_message GST_MESSAGE_EOS])
   \<and> Clock_wait_for_sync GST_CLOCK_TIME_NONE \<in> set
       [Net_client_clock_new (Some ''192.168.1.10'') 8554,
        Clock_wait_for_sync GST_CLOCK_TIME_NONE,
        G_print ''Network clock is synched to master\<newline>'' [],
        Element_factory_make ''playbin'' ''playbin'', Pipeline_use_clock,
        Clock_unref, Element_set_start_time GST_CLOCK_TIME_NONE,
        Element_set_base_time 1000000, Pipeline_set_latency 100000000,
        Object_set_uri (Some ''file:///media/movie.mkv''),
        Object_set_int ''flags'' 151, Bus_add_watch, Main_loop_new]
   \<and> option_parse ((sample_run [])\<lparr>clock_syncs := False\<rparr>) = Inr sample_cmdline
   \<and> args sample_cmdline \<noteq> [] \<and> clock_host sample_cmdline \<noteq> None
   \<and> clock_port sample_cmdline \<noteq> 0
   \<and> \<not> clock_syncs ((sample_run [])\<lparr>clock_syncs := False\<rparr>)
   \<and> main ((sample_run [])\<lparr>clock_syncs := False\<rparr>) =
       ([Net_client_clock_new (Some ''192.168.1.10'') 8554,
         Clock_wait_for_sync GST_CLOCK_TIME_NONE], None)
   \<and> state_commands (fst (main ((sample_run [])\<lparr>clock_syncs := False\<rparr>))) = []"
proof -
  have t: "fst (main (sample_run [Bus_message GST_MESSAGE_EOS])) =
     [Net_client_clock_new (Some ''192.168.1.10'') 8554,
      Clock_wait_for_sync GST_CLOCK_TIME_NONE,
      G_print ''Network clock is synched to master\<newline>'' [],
      Element_factory_make ''playbin'' ''playbin'', Pipeline_use_clock,
      Clock_unref, Element_set_start_time GST_CLOCK_TIME_NONE,
      Element_set_base_time 1000000, Pipeline_set_latency 100000000,
      Object_set_uri (Some ''file:///media/movie.mkv''),
      Object_set_int ''flags'' 151, Bus_add_watch, Main_loop_new]
     @ Element_set_state GST_STATE_PLAYING
     # [G_print ''Now playing %s\<newline>'' [ArgStr ''file:///media/movie.mkv''],
        G_print (''Prerolling...'' @ [CHR 0x0D]) [],
        Io_add_watch, G_print ''Finished playback. Exiting.\<newline>'' [],
        Main_loop_quit, Source_remove 1, Source_remove 2,
        Element_set_state GST_STATE_NULL, Playbin_unref, Main_loop_unref]"
    by (simp add: sample_eos_run)
  have p: "is_pipeline_action (Element_set_state GST_STATE_PLAYING)" by simp
  have h: "option_parse ((sample_run [])\<lparr>clock_syncs := False\<rparr>) = Inr sample_cmdline
     \<and> args sample_cmdline \<noteq> [] \<and> clock_host sample_cmdline \<noteq> None
     \<and> clock_port sample_cmdline \<noteq> 0
     \<and> \<not> clock_syncs ((sample_run [])\<lparr>clock_syncs := False\<rparr>)"
    by (simp add: sample_run_def sample_cmdline_def)
  note g1 = synchronisation_gate [of "sample_run [Bus_message GST_MESSAGE_EOS]"]
  note g2 = synchronisation_gate [of "(sample_run [])\<lparr>clock_syncs := False\<rparr>"]
  from g1 t p have a: "clock_syncs (sample_run [Bus_message GST_MESSAGE_EOS])
      \<and> Clock_wait_for_sync GST_CLOCK_TIME_NONE \<in> set
       [Net_client_clock_new (Some ''192.168.1.10'') 8554,
        Clock_wait_for_sync GST_CLOCK_TIME_NONE,
        G_print ''Network clock is synched to master\<newline>'' [],
        Element_factory_make ''playbin'' ''playbin'', Pipeline_use_clock,
        Clock_unref, Element_set_start_time GST_CLOCK_TIME_NONE,
        Element_set_base_time 1000000, Pipeline_set_latency 100000000,
        Object_set_uri (Some ''file:///media/movie.mkv''),
        Object_set_int ''flags'' 151, Bus_add_watch, Main_loop_new]"
    by blast
  from g2 h have b: "main ((sample_run [])\<lparr>clock_syncs := False\<rparr>) =
       ([Net_client_clock_new (clock_host sample_cmdline) (clock_port sample_cmdline),
         Clock_wait_for_sync GST_CLOCK_TIME_NONE], None)
      \<and> state_commands (fst (main ((sample_run [])\<lparr>clock_syncs := False\<rparr>))) = []"
    by blast
  from t p h a b show ?thesis
    by (simp add: sample_cmdline_def)
qed

lemma filter_times_start:
  "filter is_time_setting (fst (start_playback env cl pb)) = base_time_override cl"
  by (simp add: start_playback_actions base_time_override_def split: GstStateChangeReturn.splits)

lemma main_times:
  "filter is_time_setting (fst (main env)) =
     (case option_parse env of
        Inl e \<Rightarrow> []
      | Inr cl \<Rightarrow> if reaches_loop env then base_time_override cl else [])"
proof (cases "reaches_loop env")
  case False
  then show ?thesis
    using main_not_reaches(2) [of env] by (simp split: sum.splits)
next
  case True
  then obtain cl pb where p: "option_parse env = Inr cl" "playbin_made env = Some pb"
    by (rule reaches_loopE)
  obtain started data where s: "start_playback env cl pb = (started, data)"
    by (cases "start_playback env cl pb") auto
  obtain out io data' where
    d: "dispatch (events env) True (data\<lparr>loop := (loop data)\<lparr>is_running := True\<rparr>\<rparr>) = (out, io, data')"
    by (cases "dispatch (events env) True (data\<lparr>loop := (loop data)\<lparr>is_running := True\<rparr>\<rparr>)") auto
  have o: "filter is_time_setting out = []"
    using dispatch_times [of "events env" True "data\<lparr>loop := (loop data)\<lparr>is_running := True\<rparr>\<rparr>"] d
    by simp
  have st: "filter is_time_setting started = base_time_override cl"
    using filter_times_start [of env cl pb] s by simp
  show ?thesis
    using True p s d o st main_reaches [of env cl pb]
    by (simp add: sync_clock_def build_pipeline_def cleanup_def)
qed

text \<open>
  Claim C5 (base-time override). Over a whole run, the commands that set the
  pipeline's start time or base time are exactly: clear the start time, then set the
  base time to the value given, when a base time other than \<open>GST_CLOCK_TIME_NONE\<close>
  was given and the run gets as far as the pipeline; none otherwise. So the override is
  applied at most once, and neither handler repeats it. In a run that issues any state
  command, that pair stands before the first state command, which is the start command
  \<open>PLAYING\<close>.
\<close>

theorem base_time_override_once:
  "filter is_time_setting (fst (main env)) =
     (case option_parse env of
        Inl e \<Rightarrow> []
      | Inr cl \<Rightarrow>
          if reaches_loop env \<and> base_time cl \<noteq> GST_CLOCK_TIME_NONE
          then [Element_set_start_time GST_CLOCK_TIME_NONE, Element_set_base_time (base_time cl)]
          else [])
   \<and> (state_commands (fst (main env)) \<noteq> [] \<longrightarrow>
        (\<exists>cl pre mid post. option_parse env = Inr cl
           \<and> fst (main env) =
               pre @ (if base_time cl \<noteq> GST_CLOCK_TIME_NONE
                      then [Element_set_start_time GST_CLOCK_TIME_NONE,
                            Element_set_base_time (base_time cl)]
                      else [])
                 @ mid @ [Element_set_state GST_STATE_PLAYING] @ post
           \<and> state_commands pre = [] \<and> state_commands mid = []
           \<and> filter is_time_setting pre = [] \<and> filter is_time_setting mid = []
           \<and> filter is_time_setting post = []))"
proof -
  have one: "filter is_time_setting (fst (main env)) =
     (case option_parse env of
        Inl e \<Rightarrow> []
      | Inr cl \<Rightarrow>
          if reaches_loop env \<and> base_time cl \<noteq> GST_CLOCK_TIME_NONE
          then [Element_set_start_time GST_CLOCK_TIME_NONE, Element_set_base_time (base_time cl)]
          else [])"
    by (simp add: main_times base_time_override_def split: sum.splits)
  have two: "\<exists>cl pre mid post. option_parse env = Inr cl
           \<and> fst (main env) =
               pre @ (if base_time cl \<noteq> GST_CLOCK_TIME_NONE
                      then [Element_set_start_time GST_CLOCK_TIME_NONE,
                            Element_set_base_time (base_time cl)]
                      else [])
                 @ mid @ [Element_set_state GST_STATE_PLAYING] @ post
           \<and> state_commands pre = [] \<and> state_commands mid = []
           \<and> filter is_time_setting pre = [] \<and> filter is_time_setting mid = []
           \<and> filter is_time_setting post = []"
    if nonempty: "state_commands (fst (main env)) \<noteq> []"
  proof -
    have r: "reaches_loop env"
      using nonempty main_not_reaches(3) [of env] by blast
    then obtain cl pb where p: "option_parse env = Inr cl" "playbin_made env = Some pb"
      by (rule reaches_loopE)
    obtain started data where s: "start_playback env cl pb = (started, data)"
      by (cases "start_playback env cl pb") auto
    obtain out io data' where
      d: "dispatch (events env) True (data\<lparr>loop := (loop data)\<lparr>is_running := True\<rparr>\<rparr>) = (out, io, data')"
      by (cases "dispatch (events env) True (data\<lparr>loop := (loop data)\<lparr>is_running := True\<rparr>\<rparr>)") auto
    have o: "filter is_time_setting out = []"
      using dispatch_times [of "events env" True "data\<lparr>loop := (loop data)\<lparr>is_running := True\<rparr>\<rparr>"] d
      by simp
    define pre where "pre = sync_clock cl @ build_pipeline @ [Pipeline_use_clock, Clock_unref]"
    define mid where "mid = [Pipeline_set_latency (100 * GST_MSECOND),
          Object_set_uri (canonicalise_uri env (args cl ! 0)),
          Object_set_int ''flags'' (flags pb OR PLAY_FLAGS_DOWNLOAD),
          Bus_add_watch, Main_loop_new]"
    define tail where "tail = [G_print ''Now playing %s\<newline>'' [str_arg (canonicalise_uri env (args cl ! 0))]]
          @ (case play_return env of
               GST_STATE_CHANGE_FAILURE \<Rightarrow> []
             | GST_STATE_CHANGE_NO_PREROLL \<Rightarrow> [G_print ''Pipeline is live.\<newline>'' []]
             | GST_STATE_CHANGE_ASYNC \<Rightarrow> [G_print (''Prerolling...'' @ [CHR 0x0D]) []]
             | GST_STATE_CHANGE_SUCCESS \<Rightarrow> [])
          @ [Io_add_watch]"
    define post where "post = tail @ out @ (if is_running (loop data') then [] else cleanup data')"
    have started_eq: "started = [Pipeline_use_clock, Clock_unref] @ base_time_override cl
        @ mid @ [Element_set_state GST_STATE_PLAYING] @ tail"
      using start_playback_actions [of env cl pb] s by (simp add: mid_def tail_def)
    have m: "fst (main env) = pre @ base_time_override cl @ mid
        @ [Element_set_state GST_STATE_PLAYING] @ post"
      using r p s d main_reaches [of env cl pb]
      by (simp add: started_eq pre_def post_def)
    have t: "filter is_time_setting tail = []"
      by (simp add: tail_def split: GstStateChangeReturn.splits)
    have "state_commands pre = [] \<and> state_commands mid = []
        \<and> filter is_time_setting pre = [] \<and> filter is_time_setting mid = []
        \<and> filter is_time_setting post = []"
      using o t by (simp add: pre_def mid_def post_def sync_clock_def build_pipeline_def cleanup_def)
    with m p show ?thesis
      unfolding base_time_override_def by blast
  qed
  from one two show ?thesis by blast
qed

theorem base_time_override_once_witness:
  "state_commands (fst (main (sample_run [Bus_message GST_MESSAGE_EOS]))) \<noteq> []
   \<and> filter is_time_setting (fst (main (sample_run [Bus_message GST_MESSAGE_EOS]))) =
       [Element_set_start_time GST_CLOCK_TIME_NONE, Element_set_base_time 1000000]
   \<and> (\<exists>pre mid post.
        fst (main (sample_run [Bus_message GST_MESSAGE_EOS])) =
          pre @ [Element_set_start_time GST_CLOCK_TIME_NONE, Element_set_base_time 1000000]
            @ mid @ [Element_set_state GST_STATE_PLAYING] @ post
        \<and> state_commands pre = [] \<and> state_commands mid = []
        \<and> filter is_time_setting pre = [] \<and> filter is_time_setting mid = []
        \<and> filter is_time_setting post = [])"
proof -
  have n: "state_commands (fst (main (sample_run [Bus_message GST_MESSAGE_EOS]))) \<noteq> []"
    by (simp add: sample_eos_run)
  have p: "option_parse (sample_run [Bus_message GST_MESSAGE_EOS]) = Inr sample_cmdline"
    by (simp add: sample_run_def)
  have b: "base_time sample_cmdline = 1000000"
    by (simp add: sample_cmdline_def)
  have b': "GST_CLOCK_TIME_NONE \<noteq> 1000000"
    by (simp add: GST_CLOCK_TIME_NONE_def)
  note r = sample_reaches_loop [of "[Bus_message GST_MESSAGE_EOS]"]
  note inst = base_time_override_once [of "sample_run [Bus_message GST_MESSAGE_EOS]"]
  from inst p b b' r
  have f: "filter is_time_setting (fst (main (sample_run [Bus_message GST_MESSAGE_EOS]))) =
       [Element_set_start_time GST_CLOCK_TIME_NONE, Element_set_base_time 1000000]"
    by simp
  from inst n obtain cl pre mid post where
    c: "option_parse (sample_run [Bus_message GST_MESSAGE_EOS]) = Inr cl"
    and t: "fst (main (sample_run [Bus_message GST_MESSAGE_EOS])) =
        pre @ (if base_time cl \<noteq> GST_CLOCK_TIME_NONE
               then [Element_set_start_time GST_CLOCK_TIME_NONE,
                     Element_set_base_time (base_time cl)]
               else [])
          @ mid @ [Element_set_state GST_STATE_PLAYING] @ post"
    and e: "state_commands pre = [] \<and> state_commands mid = []
        \<and> filter is_time_setting pre = [] \<and> filter is_time_setting mid = []
        \<and> filter is_time_setting post = []"
    by blast
  from c p have "cl = sample_cmdline" by simp
  with t b b' have "fst (main (sample_run [Bus_message GST_MESSAGE_EOS])) =
        pre @ [Element_set_start_time GST_CLOCK_TIME_NONE, Element_set_base_time 1000000]
          @ mid @ [Element_set_state GST_STATE_PLAYING] @ post"
    by simp
  with e have "\<exists>pre mid post.
        fst (main (sample_run [Bus_message GST_MESSAGE_EOS])) =
          pre @ [Element_set_start_time GST_CLOCK_TIME_NONE, Element_set_base_time 1000000]
            @ mid @ [Element_set_state GST_STATE_PLAYING] @ post
        \<and> state_commands pre = [] \<and> state_commands mid = []
        \<and> filter is_time_setting pre = [] \<and> filter is_time_setting mid = []
        \<and> filter is_time_setting post = []"
    by blast
  with n f show ?thesis by blast
qed

lemma main_exit:
  assumes "reaches_loop env"
  shows "snd (main env) = None \<or> snd (main env) = Some (Exited 0)"
proof -
  from assms obtain cl pb where p: "option_parse env = Inr cl" "playbin_made env = Some pb"
    by (rule reaches_loopE)
  show ?thesis
    using assms p main_reaches [of env cl pb] by (simp split: prod.splits)
qed

lemma main_running:
  assumes "reaches_loop env" and "option_parse env = Inr cl" and "playbin_made env = Some pb"
  shows "(snd (main env) = None) =
    is_running (loop (snd (snd (dispatch (events env) True
      ((snd (start_playback env cl pb))\<lparr>loop := (loop (snd (start_playback env cl pb)))\<lparr>is_running := True\<rparr>\<rparr>)))))"
  using assms main_reaches [of env cl pb] by (simp split: prod.splits)

lemma reaches_loop_events [simp]: "reaches_loop (env\<lparr>events := es\<rparr>) = reaches_loop env"
  by (simp add: reaches_loop_def split: sum.splits)

lemma start_playback_events [simp]:
  "start_playback (env\<lparr>events := es\<rparr>) cl pb = start_playback env cl pb"
  by (simp add: start_playback_def canonicalise_uri_def Let_def)

lemma io_callback_keep:
  assumes "io_callback r query data = (out, data', keep)" and "r \<noteq> G_IO_STATUS_EOF"
  shows "keep \<or> \<not> is_running (loop data')"
  using assms
  by (cases r) (auto simp add: g_main_loop_quit_def split: if_splits prod.splits)

lemma dispatch_io_kept:
  assumes "\<forall>q. Stdin_ready G_IO_STATUS_EOF q \<notin> set es" and "io"
  shows "fst (snd (dispatch es io data)) \<or> \<not> is_running (loop (snd (snd (dispatch es io data))))"
  using assms
proof (induction es io data rule: dispatch.induct)
  case (1 io data)
  then show ?case by simp
next
  case (2 m es io data)
  show ?case
  proof (cases "is_running (loop data)")
    case False
    then show ?thesis by simp
  next
    case True
    obtain out data' keep where h: "handle_bus_msg m data = (out, data', keep)"
      by (cases "handle_bus_msg m data") auto
    with 2 True show ?thesis
      by (cases "dispatch es io data'") fastforce
  qed
next
  case (3 r query es io data)
  show ?case
  proof (cases "is_running (loop data)")
    case False
    then show ?thesis by simp
  next
    case True
    obtain out data' keep where h: "io_callback r query data = (out, data', keep)"
      by (cases "io_callback r query data") auto
    from 3(3) have ne: "r \<noteq> G_IO_STATUS_EOF" by auto
    show ?thesis
    proof (cases keep)
      case k: True
      with 3 True h show ?thesis
        by (cases "dispatch es keep data'") fastforce
    next
      case False
      with h ne have "\<not> is_running (loop data')"
        using io_callback_keep by blast
      then have "dispatch es keep data' = ([], keep, data')"
        by (rule dispatch_stopped)
      with 3 True h \<open>\<not> is_running (loop data')\<close> show ?thesis by simp
    qed
  qed
qed

lemma dispatch_quit_event:
  assumes "e = Bus_message GST_MESSAGE_EOS
      \<or> (\<exists>s m d. e = Bus_message (GST_MESSAGE_ERROR s m d))
      \<or> (\<exists>q. e = Stdin_ready (G_IO_STATUS_NORMAL CHR ''q'') q) \<and> io"
  shows "\<not> is_running (loop (snd (snd (dispatch (e # es) io data))))"
proof (cases "is_running (loop data)")
  case False
  then show ?thesis by (simp add: dispatch_stopped)
next
  case True
  from assms show ?thesis
    by (auto simp add: True dispatch_stopped g_main_loop_quit_def)
qed

lemma dispatch_append_state:
  "snd (snd (dispatch (es1 @ es2) io data)) =
     snd (snd (dispatch es2 (fst (snd (dispatch es1 io data)))
       (snd (snd (dispatch es1 io data)))))"
  by (simp add: dispatch_append split: prod.splits)

lemma dispatch_quit_after:
  assumes "fst (snd (dispatch pre io data)) \<or> \<not> needs_io"
    and "e = Bus_message GST_MESSAGE_EOS
      \<or> (\<exists>q. e = Stdin_ready (G_IO_STATUS_NORMAL CHR ''q'') q) \<and> needs_io"
  shows "\<not> is_running (loop (snd (snd (dispatch (pre @ e # post) io data))))"
proof -
  obtain out1 io1 data1 where d: "dispatch pre io data = (out1, io1, data1)"
    by (cases "dispatch pre io data") auto
  have "\<not> is_running (loop (snd (snd (dispatch (e # post) io1 data1))))"
    using assms d by (intro dispatch_quit_event) auto
  then show ?thesis
    by (simp add: dispatch_append_state d)
qed

lemma main_at_quit:
  assumes r: "reaches_loop env"
    and ev: "events env = pre @ e # post"
    and run: "snd (main (env\<lparr>events := pre\<rparr>)) = None"
    and io_ok: "needs_io \<longrightarrow> (\<forall>q. Stdin_ready G_IO_STATUS_EOF q \<notin> set pre)"
    and step: "\<And>io data. is_running (loop data) \<Longrightarrow> io \<or> \<not> needs_io \<Longrightarrow>
        dispatch (e # post) io data = (out_e, io, g_main_loop_quit data)"
  shows "main env =
     (fst (main (env\<lparr>events := pre\<rparr>)) @ out_e
        @ [Source_remove (bus_watch_id env),
           Source_remove (stdin_watch_id env),
           Element_set_state GST_STATE_NULL,
           Playbin_unref,
           Main_loop_unref],
      Some (Exited 0))"
proof -
  from r obtain cl pb where p: "option_parse env = Inr cl" "playbin_made env = Some pb"
    by (auto elim: reaches_loopE)
  obtain started data where s: "start_playback env cl pb = (started, data)"
    by (cases "start_playback env cl pb") auto
  define data0 where "data0 = data\<lparr>loop := (loop data)\<lparr>is_running := True\<rparr>\<rparr>"
  obtain out1 io1 data1 where d1: "dispatch pre True data0 = (out1, io1, data1)"
    by (cases "dispatch pre True data0") auto
  have pre_main: "main (env\<lparr>events := pre\<rparr>) =
      (if is_running (loop data1)
       then (sync_clock cl @ build_pipeline @ started @ out1, None)
       else (sync_clock cl @ build_pipeline @ started @ out1 @ cleanup data1, Some (Exited 0)))"
    using r p s d1 main_reaches [of "env\<lparr>events := pre\<rparr>" cl pb]
    by (simp add: data0_def)
  with run have running: "is_running (loop data1)"
    by (auto split: if_splits)
  have kept: "io1 \<or> \<not> needs_io"
  proof (cases needs_io)
    case False
    then show ?thesis by simp
  next
    case True
    with io_ok have "\<forall>q. Stdin_ready G_IO_STATUS_EOF q \<notin> set pre" by simp
    then have "fst (snd (dispatch pre True data0))
        \<or> \<not> is_running (loop (snd (snd (dispatch pre True data0))))"
      using dispatch_io_kept [of pre True data0] by simp
    with d1 running show ?thesis by simp
  qed
  have w: "bus_watch data1 = bus_watch_id env \<and> io_watch_id data1 = stdin_watch_id env"
    using dispatch_watches [of pre True data0] d1 start_playback_watches [of env cl pb] s
    by (simp add: data0_def)
  have full: "dispatch (events env) True data0 = (out1 @ out_e, io1, g_main_loop_quit data1)"
    using ev d1 step [OF running kept]
    by (simp add: dispatch_append)
  show ?thesis
    using r p s full running w pre_main main_reaches [of env cl pb]
    by (simp add: data0_def g_main_loop_quit_def cleanup_def)
qed

lemma dispatch_eos:
  assumes "is_running (loop data)"
  shows "dispatch (Bus_message GST_MESSAGE_EOS # post) io data =
    ([G_print ''Finished playback. Exiting.\<newline>'' [], Main_loop_quit], io, g_main_loop_quit data)"
  using assms by (simp add: dispatch_stopped g_main_loop_quit_def)

lemma dispatch_key_q:
  assumes "is_running (loop data)" and "io"
  shows "dispatch (Stdin_ready (G_IO_STATUS_NORMAL CHR ''q'') query # post) io data =
    ([Main_loop_quit], io, g_main_loop_quit data)"
  using assms by (simp add: dispatch_stopped g_main_loop_quit_def)

text \<open>
  Claim C6 (command-line validation), as the code has it. When the option parser
  rejects the command line, the process reports the parser's message as a fatal error
  and aborts: no usage message, no exit code 1. When the options parse and the file
  argument, the clock host or the clock port is missing (the port left at 0), the run
  is exactly the two usage lines, printed in full below, and exit code 1: no clock, no
  pipeline, no loop. A run that is in the loop when end of stream arrives prints
  \<open>Finished playback. Exiting.\<close>, quits the loop, removes both watches, sets the
  state \<open>NULL\<close>, releases the pipeline and the loop, and exits with code 0; a run that
  is in the loop, with standard input still watched, when the key \<open>q\<close> arrives does
  the same without the line. Every run that leaves the loop exits with code 0.
\<close>

theorem consumer_cli_validation:
  "(option_parse env = Inl message \<longrightarrow>
      main env = ([G_error ''Error parsing options: %s'' [ArgStr message]], Some Aborted))
   \<and> (option_parse env = Inr cl \<and> (args cl = [] \<or> clock_host cl = None \<or> clock_port cl = 0) \<longrightarrow>
      main env =
        ([G_print ''Usage: %s -c netclock-host-IP -p netclock-host-port -b base-time <file>\<newline>''
            [ArgStr (argv0 cl)],
          G_print (''When running, pressing 'q' quits the application\<newline>'f' seeks ''
            @ ''backwards 10 seconds\<newline>'g' seeks forwards 10 seconds\<newline>'a' switches ''
            @ ''to the next audio track\<newline>'d' enables/disables subtitles\<newline>'s' switches ''
            @ ''to the next subtitle track\<newline>'v' enables/disables visualisations\<newline>''
            @ ''For this trivial example, you need to press enter after each command\<newline>'') []],
         Some (Exited 1)))
   \<and> (reaches_loop env \<and> events env = pre @ Bus_message GST_MESSAGE_EOS # post
        \<and> snd (main (env\<lparr>events := pre\<rparr>)) = None \<longrightarrow>
      main env =
        (fst (main (env\<lparr>events := pre\<rparr>))
           @ [G_print ''Finished playback. Exiting.\<newline>'' [], Main_loop_quit]
           @ [Source_remove (bus_watch_id env),
              Source_remove (stdin_watch_id env),
              Element_set_state GST_STATE_NULL,
              Playbin_unref,
              Main_loop_unref],
         Some (Exited 0)))
   \<and> (reaches_loop env
        \<and> events env = pre @ Stdin_ready (G_IO_STATUS_NORMAL CHR ''q'') query # post
        \<and> (\<forall>q. Stdin_ready G_IO_STATUS_EOF q \<notin> set pre)
        \<and> snd (main (env\<lparr>events := pre\<rparr>)) = None \<longrightarrow>
      main env =
        (fst (main (env\<lparr>events := pre\<rparr>))
           @ [Main_loop_quit]
           @ [Source_remove (bus_watch_id env),
              Source_remove (stdin_watch_id env),
              Element_set_state GST_STATE_NULL,
              Playbin_unref,
              Main_loop_unref],
         Some (Exited 0)))
   \<and> (reaches_loop env \<and> events env = pre @ Bus_message GST_MESSAGE_EOS # post \<longrightarrow>
      snd (main env) = Some (Exited 0))
   \<and> (reaches_loop env
        \<and> events env = pre @ Stdin_ready (G_IO_STATUS_NORMAL CHR ''q'') query # post
        \<and> (\<forall>q. Stdin_ready G_IO_STATUS_EOF q \<notin> set pre) \<longrightarrow>
      snd (main env) = Some (Exited 0))
   \<and> (reaches_loop env \<and> snd (main env) \<noteq> None \<longrightarrow> snd (main env) = Some (Exited 0))"
proof -
  have zero: "main env = ([G_error ''Error parsing options: %s'' [ArgStr message]], Some Aborted)"
    if "option_parse env = Inl message"
    using that by (simp add: main_def)
  have one: "main env =
        ([G_print ''Usage: %s -c netclock-host-IP -p netclock-host-port -b base-time <file>\<newline>''
            [ArgStr (argv0 cl)],
          G_print (''When running, pressing 'q' quits the application\<newline>'f' seeks ''
            @ ''backwards 10 seconds\<newline>'g' seeks forwards 10 seconds\<newline>'a' switches ''
            @ ''to the next audio track\<newline>'d' enables/disables subtitles\<newline>'s' switches ''
            @ ''to the next subtitle track\<newline>'v' enables/disables visualisations\<newline>''
            @ ''For this trivial example, you need to press enter after each command\<newline>'') []],
         Some (Exited 1))"
    if "option_parse env = Inr cl \<and> (args cl = [] \<or> clock_host cl = None \<or> clock_port cl = 0)"
    using that by (auto simp add: main_def argc_def usage_def)
  have eos: "main env =
        (fst (main (env\<lparr>events := pre\<rparr>))
           @ [G_print ''Finished playback. Exiting.\<newline>'' [], Main_loop_quit]
           @ [Source_remove (bus_watch_id env),
              Source_remove (stdin_watch_id env),
              Element_set_state GST_STATE_NULL,
              Playbin_unref,
              Main_loop_unref],
         Some (Exited 0))"
    if h: "reaches_loop env \<and> events env = pre @ Bus_message GST_MESSAGE_EOS # post
        \<and> snd (main (env\<lparr>events := pre\<rparr>)) = None"
    using h main_at_quit [of env pre "Bus_message GST_MESSAGE_EOS" post False
        "[G_print ''Finished playback. Exiting.\<newline>'' [], Main_loop_quit]"]
      dispatch_eos
    by simp
  have key: "main env =
        (fst (main (env\<lparr>events := pre\<rparr>))
           @ [Main_loop_quit]
           @ [Source_remove (bus_watch_id env),
              Source_remove (stdin_watch_id env),
              Element_set_state GST_STATE_NULL,
              Playbin_unref,
              Main_loop_unref],
         Some (Exited 0))"
    if h: "reaches_loop env
        \<and> events env = pre @ Stdin_ready (G_IO_STATUS_NORMAL CHR ''q'') query # post
        \<and> (\<forall>q. Stdin_ready G_IO_STATUS_EOF q \<notin> set pre)
        \<and> snd (main (env\<lparr>events := pre\<rparr>)) = None"
    using h main_at_quit [of env pre "Stdin_ready (G_IO_STATUS_NORMAL CHR ''q'') query" post True
        "[Main_loop_quit]"]
      dispatch_key_q
    by simp
  have two: "snd (main env) = Some (Exited 0)"
    if h: "reaches_loop env \<and> events env = pre @ Bus_message GST_MESSAGE_EOS # post"
  proof -
    from h obtain cl' pb where p: "option_parse env = Inr cl'" "playbin_made env = Some pb"
      by (auto elim: reaches_loopE)
    have "snd (main env) \<noteq> None"
      using h p main_running [of env cl' pb]
        dispatch_quit_after [of pre True _ False "Bus_message GST_MESSAGE_EOS" post]
      by simp
    with h main_exit [of env] show ?thesis by blast
  qed
  have three: "snd (main env) = Some (Exited 0)"
    if h: "reaches_loop env
        \<and> events env = pre @ Stdin_ready (G_IO_STATUS_NORMAL CHR ''q'') query # post
        \<and> (\<forall>q. Stdin_ready G_IO_STATUS_EOF q \<notin> set pre)"
  proof -
    from h obtain cl' pb where p: "option_parse env = Inr cl'" "playbin_made env = Some pb"
      by (auto elim: reaches_loopE)
    define data0 where "data0 =
      (snd (start_playback env cl' pb))\<lparr>loop := (loop (snd (start_playback env cl' pb)))\<lparr>is_running := True\<rparr>\<rparr>"
    have kept: "fst (snd (dispatch pre True data0))
        \<or> \<not> is_running (loop (snd (snd (dispatch pre True data0))))"
      using h dispatch_io_kept [of pre True data0] by simp
    have "\<not> is_running (loop (snd (snd (dispatch
        (pre @ Stdin_ready (G_IO_STATUS_NORMAL CHR ''q'') query # post) True data0))))"
    proof (cases "fst (snd (dispatch pre True data0))")
      case True
      then show ?thesis
        using dispatch_quit_after [of pre True data0 True
            "Stdin_ready (G_IO_STATUS_NORMAL CHR ''q'') query" post]
        by simp
    next
      case False
      with kept have "\<not> is_running (loop (snd (snd (dispatch pre True data0))))" by simp
      then show ?thesis
        by (simp add: dispatch_append_state dispatch_stopped)
    qed
    then have "snd (main env) \<noteq> None"
      using h p main_running [of env cl' pb] by (simp add: data0_def)
    with h main_exit [of env] show ?thesis by blast
  qed
  have four: "snd (main env) = Some (Exited 0)"
    if "reaches_loop env \<and> snd (main env) \<noteq> None"
    using that main_exit [of env] by auto
  from zero one eos key two three four show ?thesis by blast
qed

theorem consumer_cli_validation_witness:
  "option_parse bogus_run = Inl ''Unknown option --bogus''
   \<and> main bogus_run =
       ([G_error ''Error parsing options: %s'' [ArgStr ''Unknown option --bogus'']], Some Aborted)
   \<and> option_parse ((sample_run [])\<lparr>option_parse := Inr (sample_cmdline\<lparr>args := []\<rparr>)\<rparr>)
       = Inr (sample_cmdline\<lparr>args := []\<rparr>)
   \<and> args (sample_cmdline\<lparr>args := []\<rparr>) = []
   \<and> snd (main ((sample_run [])\<lparr>option_parse := Inr (sample_cmdline\<lparr>args := []\<rparr>)\<rparr>))
       = Some (Exited 1)
   \<and> map is_print
        (fst (main ((sample_run [])\<lparr>option_parse := Inr (sample_cmdline\<lparr>args := []\<rparr>)\<rparr>)))
       = [True, True]
   \<and> reaches_loop (sample_run [Bus_message GST_MESSAGE_LATENCY, Bus_message GST_MESSAGE_EOS])
   \<and> events (sample_run [Bus_message GST_MESSAGE_LATENCY, Bus_message GST_MESSAGE_EOS])
       = [Bus_message GST_MESSAGE_LATENCY] @ Bus_message GST_MESSAGE_EOS # []
   \<and> snd (main ((sample_run [Bus_message GST_MESSAGE_LATENCY, Bus_message GST_MESSAGE_EOS])
         \<lparr>events := [Bus_message GST_MESSAGE_LATENCY]\<rparr>)) = None
   \<and> snd (main (sample_run [Bus_message GST_MESSAGE_LATENCY, Bus_message GST_MESSAGE_EOS]))
       = Some (Exited 0)
   \<and> state_commands
        (fst (main (sample_run [Bus_message GST_MESSAGE_LATENCY, Bus_message GST_MESSAGE_EOS])))
       = [GST_STATE_PLAYING, GST_STATE_NULL]
   \<and> reaches_loop (sample_run [Bus_message GST_MESSAGE_LATENCY,
        Stdin_ready (G_IO_STATUS_NORMAL CHR ''q'') None])
   \<and> events (sample_run [Bus_message GST_MESSAGE_LATENCY,
        Stdin_ready (G_IO_STATUS_NORMAL CHR ''q'') None])
      = [Bus_message GST_MESSAGE_LATENCY] @ Stdin_ready (G_IO_STATUS_NORMAL CHR ''q'') None # []
   \<and> snd (main ((sample_run [Bus_message GST_MESSAGE_LATENCY,
        Stdin_ready (G_IO_STATUS_NORMAL CHR ''q'') None])
         \<lparr>events := [Bus_message GST_MESSAGE_LATENCY]\<rparr>)) = None
   \<and> snd (main (sample_run [Bus_message GST_MESSAGE_LATENCY,
        Stdin_ready (G_IO_STATUS_NORMAL CHR ''q'') None])) = Some (Exited 0)
   \<and> state_commands (fst (main (sample_run [Bus_message GST_MESSAGE_LATENCY,
        Stdin_ready (G_IO_STATUS_NORMAL CHR ''q'') None])))
       = [GST_STATE_PLAYING, GST_STATE_NULL]"
proof -
  define usage_run where
    "usage_run = (sample_run [])\<lparr>option_parse := Inr (sample_cmdline\<lparr>args := []\<rparr>)\<rparr>"
  define eos_run where
    "eos_run = sample_run [Bus_message GST_MESSAGE_LATENCY, Bus_message GST_MESSAGE_EOS]"
  define key_run where
    "key_run = sample_run [Bus_message GST_MESSAGE_LATENCY,
        Stdin_ready (G_IO_STATUS_NORMAL CHR ''q'') None]"
  have bogus: "option_parse bogus_run = Inl ''Unknown option --bogus''"
    by (simp add: bogus_run_def)
  have a: "option_parse usage_run = Inr (sample_cmdline\<lparr>args := []\<rparr>)
      \<and> (args (sample_cmdline\<lparr>args := []\<rparr>) = []
         \<or> clock_host (sample_cmdline\<lparr>args := []\<rparr>) = None
         \<or> clock_port (sample_cmdline\<lparr>args := []\<rparr>) = 0)"
    by (simp add: usage_run_def)
  have pre_run: "main ((sample_run es)\<lparr>events := [Bus_message GST_MESSAGE_LATENCY]\<rparr>) =
      ([Net_client_clock_new (Some ''192.168.1.10'') 8554,
       Clock_wait_for_sync GST_CLOCK_TIME_NONE,
       G_print ''Network clock is synched to master\<newline>'' [],
       Element_factory_make ''playbin'' ''playbin'', Pipeline_use_clock,
       Clock_unref, Element_set_start_time GST_CLOCK_TIME_NONE,
       Element_set_base_time 1000000, Pipeline_set_latency 100000000,
       Object_set_uri (Some ''file:///media/movie.mkv''),
       Object_set_int ''flags'' 151, Bus_add_watch, Main_loop_new,
       Element_set_state GST_STATE_PLAYING,
       G_print ''Now playing %s\<newline>'' [ArgStr ''file:///media/movie.mkv''],
       G_print (''Prerolling...'' @ [CHR 0x0D]) [],
       Io_add_watch,
       G_print ''Redistribute latency...\<newline>'' [], Bin_recalculate_latency], None)" for es
    by (simp add: run_defs)
  have b: "reaches_loop eos_run
      \<and> events eos_run = [Bus_message GST_MESSAGE_LATENCY] @ Bus_message GST_MESSAGE_EOS # []
      \<and> snd (main (eos_run\<lparr>events := [Bus_message GST_MESSAGE_LATENCY]\<rparr>)) = None"
    using sample_reaches_loop by (simp add: eos_run_def pre_run) (simp add: sample_run_def)
  have c: "reaches_loop key_run
      \<and> events key_run
          = [Bus_message GST_MESSAGE_LATENCY] @ Stdin_ready (G_IO_STATUS_NORMAL CHR ''q'') None # []
      \<and> (\<forall>q. Stdin_ready G_IO_STATUS_EOF q \<notin> set [Bus_message GST_MESSAGE_LATENCY])
      \<and> snd (main (key_run\<lparr>events := [Bus_message GST_MESSAGE_LATENCY]\<rparr>)) = None"
    using sample_reaches_loop by (simp add: key_run_def pre_run) (simp add: sample_run_def)
  from bogus consumer_cli_validation [of bogus_run "''Unknown option --bogus''"]
  have zero: "main bogus_run =
       ([G_error ''Error parsing options: %s'' [ArgStr ''Unknown option --bogus'']], Some Aborted)"
    by blast
  from a consumer_cli_validation [of usage_run _ "sample_cmdline\<lparr>args := []\<rparr>"]
  have one: "main usage_run =
        ([G_print ''Usage: %s -c netclock-host-IP -p netclock-host-port -b base-time <file>\<newline>''
            [ArgStr (argv0 (sample_cmdline\<lparr>args := []\<rparr>))],
          G_print (''When running, pressing 'q' quits the application\<newline>'f' seeks ''
            @ ''backwards 10 seconds\<newline>'g' seeks forwards 10 seconds\<newline>'a' switches ''
            @ ''to the next audio track\<newline>'d' enables/disables subtitles\<newline>'s' switches ''
            @ ''to the next subtitle track\<newline>'v' enables/disables visualisations\<newline>''
            @ ''For this trivial example, you need to press enter after each command\<newline>'') []],
         Some (Exited 1))"
    by blast
  from b consumer_cli_validation
    [of eos_run _ _ "[Bus_message GST_MESSAGE_LATENCY]" "[]"]
  have two: "main eos_run =
        (fst (main (eos_run\<lparr>events := [Bus_message GST_MESSAGE_LATENCY]\<rparr>))
           @ [G_print ''Finished playback. Exiting.\<newline>'' [], Main_loop_quit]
           @ [Source_remove (bus_watch_id eos_run),
              Source_remove (stdin_watch_id eos_run),
              Element_set_state GST_STATE_NULL,
              Playbin_unref,
              Main_loop_unref],
         Some (Exited 0))"
    by blast
  from c consumer_cli_validation
    [of key_run _ _ "[Bus_message GST_MESSAGE_LATENCY]" "[]" None]
  have three: "main key_run =
        (fst (main (key_run\<lparr>events := [Bus_message GST_MESSAGE_LATENCY]\<rparr>))
           @ [Main_loop_quit]
           @ [Source_remove (bus_watch_id key_run),
              Source_remove (stdin_watch_id key_run),
              Element_set_state GST_STATE_NULL,
              Playbin_unref,
              Main_loop_unref],
         Some (Exited 0))"
    by blast
  have p1: "snd (main usage_run) = Some (Exited 1) \<and> map is_print (fst (main usage_run)) = [True, True]"
    by (simp add: one)
  have p2: "snd (main eos_run) = Some (Exited 0)
      \<and> state_commands (fst (main eos_run)) = [GST_STATE_PLAYING, GST_STATE_NULL]"
    by (simp add: two) (simp add: eos_run_def pre_run)
  have p3: "snd (main key_run) = Some (Exited 0)
      \<and> state_commands (fst (main key_run)) = [GST_STATE_PLAYING, GST_STATE_NULL]"
    by (simp add: three) (simp add: key_run_def pre_run)
  from bogus zero a b c p1 p2 p3 show ?thesis
    unfolding usage_run_def eos_run_def key_run_def by simp
qed

text \<open>
  The claim as first stated, without the condition that the options parse, fails on the
  command line \<^verbatim>\<open>netclock-playback --bogus\<close>: it has no file argument, no host option
  and no port option, the parser rejects it, and the run is the fatal error and an
  abort, with nothing printed by way of usage and no exit code 1.
\<close>

theorem consumer_cli_validation_counterexample:
  "command_line bogus_run = [''netclock-playback'', ''--bogus'']
   \<and> only_options (command_line bogus_run)
   \<and> \<not> host_option_given (command_line bogus_run)
   \<and> \<not> port_option_given (command_line bogus_run)
   \<and> main bogus_run =
       ([G_error ''Error parsing options: %s'' [ArgStr ''Unknown option --bogus'']], Some Aborted)
   \<and> filter is_print (fst (main bogus_run)) = []
   \<and> snd (main bogus_run) \<noteq> Some (Exited 1)"
  by (simp add: bogus_run_def main_def only_options_def host_option_given_def
      port_option_given_def)

text \<open>
  Claim C7 (pipeline errors). When an error message arrives while the loop is running,
  the run continues with exactly: the element name and message on the error channel,
  the debugging detail (or \<open>none\<close>), the line \<open>Exiting.\<close>, the quit of the loop,
  then the removal of both watches, the state command \<open>NULL\<close>, and the release of the
  pipeline and of the loop; the process exits with code 0. No event after the error is
  dispatched and no state command other than \<open>NULL\<close> follows it.
\<close>

theorem pipeline_error_handling:
  "reaches_loop env
   \<and> events env = pre @ Bus_message (GST_MESSAGE_ERROR src_name message dbg_info) # post
   \<and> snd (main (env\<lparr>events := pre\<rparr>)) = None \<longrightarrow>
   main env =
     (fst (main (env\<lparr>events := pre\<rparr>))
        @ [G_printerr ''ERROR from element %s: %s\<newline>'' [ArgStr src_name, ArgStr message],
           G_printerr ''Debugging info: %s\<newline>''
             [ArgStr (case dbg_info of Some d \<Rightarrow> d | None \<Rightarrow> ''none'')],
           G_print ''Exiting.\<newline>'' [],
           Main_loop_quit]
        @ [Source_remove (bus_watch_id env),
           Source_remove (stdin_watch_id env),
           Element_set_state GST_STATE_NULL,
           Playbin_unref,
           Main_loop_unref],
      Some (Exited 0))"
proof (intro impI)
  assume h: "reaches_loop env
   \<and> events env = pre @ Bus_message (GST_MESSAGE_ERROR src_name message dbg_info) # post
   \<and> snd (main (env\<lparr>events := pre\<rparr>)) = None"
  then obtain cl pb where p: "option_parse env = Inr cl" "playbin_made env = Some pb"
    by (auto elim: reaches_loopE)
  obtain started data where s: "start_playback env cl pb = (started, data)"
    by (cases "start_playback env cl pb") auto
  define data0 where "data0 = data\<lparr>loop := (loop data)\<lparr>is_running := True\<rparr>\<rparr>"
  obtain out1 io1 data1 where d1: "dispatch pre True data0 = (out1, io1, data1)"
    by (cases "dispatch pre True data0") auto
  have pre_main: "main (env\<lparr>events := pre\<rparr>) =
      (if is_running (loop data1)
       then (sync_clock cl @ build_pipeline @ started @ out1, None)
       else (sync_clock cl @ build_pipeline @ started @ out1 @ cleanup data1, Some (Exited 0)))"
    using h p s d1 main_reaches [of "env\<lparr>events := pre\<rparr>" cl pb]
    by (simp add: data0_def)
  with h have running: "is_running (loop data1)"
    by (auto split: if_splits)
  have w: "bus_watch data1 = bus_watch_id env \<and> io_watch_id data1 = stdin_watch_id env"
    using dispatch_watches [of pre True data0] d1 start_playback_watches [of env cl pb] s
    by (simp add: data0_def)
  have full: "dispatch (events env) True data0 =
      (out1 @ [G_printerr ''ERROR from element %s: %s\<newline>'' [ArgStr src_name, ArgStr message],
           G_printerr ''Debugging info: %s\<newline>''
             [ArgStr (case dbg_info of Some d \<Rightarrow> d | None \<Rightarrow> ''none'')],
           G_print ''Exiting.\<newline>'' [],
           Main_loop_quit], io1, g_main_loop_quit data1)"
    using h d1 running
    by (simp add: dispatch_append dispatch_stopped g_main_loop_quit_def)
  show "main env =
     (fst (main (env\<lparr>events := pre\<rparr>))
        @ [G_printerr ''ERROR from element %s: %s\<newline>'' [ArgStr src_name, ArgStr message],
           G_printerr ''Debugging info: %s\<newline>''
             [ArgStr (case dbg_info of Some d \<Rightarrow> d | None \<Rightarrow> ''none'')],
           G_print ''Exiting.\<newline>'' [],
           Main_loop_quit]
        @ [Source_remove (bus_watch_id env),
           Source_remove (stdin_watch_id env),
           Element_set_state GST_STATE_NULL,
           Playbin_unref,
           Main_loop_unref],
      Some (Exited 0))"
    using h p s full running w pre_main main_reaches [of env cl pb]
    by (simp add: data0_def g_main_loop_quit_def cleanup_def)
qed

theorem pipeline_error_handling_witness:
  "reaches_loop (sample_run [Bus_message (GST_MESSAGE_BUFFERING 90),
       Bus_message (GST_MESSAGE_ERROR ''decoder'' ''bad stream'' None),
       Bus_message GST_MESSAGE_CLOCK_LOST])
   \<and> events (sample_run [Bus_message (GST_MESSAGE_BUFFERING 90),
       Bus_message (GST_MESSAGE_ERROR ''decoder'' ''bad stream'' None),
       Bus_message GST_MESSAGE_CLOCK_LOST])
     = [Bus_message (GST_MESSAGE_BUFFERING 90)]
       @ Bus_message (GST_MESSAGE_ERROR ''decoder'' ''bad stream'' None)
       # [Bus_message GST_MESSAGE_CLOCK_LOST]
   \<and> snd (main ((sample_run [Bus_message (GST_MESSAGE_BUFFERING 90),
       Bus_message (GST_MESSAGE_ERROR ''decoder'' ''bad stream'' None),
       Bus_message GST_MESSAGE_CLOCK_LOST])\<lparr>events := [Bus_message (GST_MESSAGE_BUFFERING 90)]\<rparr>))
     = None
   \<and> snd (main (sample_run [Bus_message (GST_MESSAGE_BUFFERING 90),
       Bus_message (GST_MESSAGE_ERROR ''decoder'' ''bad stream'' None),
       Bus_message GST_MESSAGE_CLOCK_LOST])) = Some (Exited 0)
   \<and> state_commands (fst (main (sample_run [Bus_message (GST_MESSAGE_BUFFERING 90),
       Bus_message (GST_MESSAGE_ERROR ''decoder'' ''bad stream'' None),
       Bus_message GST_MESSAGE_CLOCK_LOST])))
     = [GST_STATE_PLAYING, GST_STATE_PAUSED, GST_STATE_NULL]"
proof -
  have ev: "events (sample_run [Bus_message (GST_MESSAGE_BUFFERING 90),
       Bus_message (GST_MESSAGE_ERROR ''decoder'' ''bad stream'' None),
       Bus_message GST_MESSAGE_CLOCK_LOST])
     = [Bus_message (GST_MESSAGE_BUFFERING 90)]
       @ Bus_message (GST_MESSAGE_ERROR ''decoder'' ''bad stream'' None)
       # [Bus_message GST_MESSAGE_CLOCK_LOST]"
    by (simp add: sample_run_def)
  have pre: "main ((sample_run [Bus_message (GST_MESSAGE_BUFFERING 90),
       Bus_message (GST_MESSAGE_ERROR ''decoder'' ''bad stream'' None),
       Bus_message GST_MESSAGE_CLOCK_LOST])\<lparr>events := [Bus_message (GST_MESSAGE_BUFFERING 90)]\<rparr>)
     = ([Net_client_clock_new (Some ''192.168.1.10'') 8554,
       Clock_wait_for_sync GST_CLOCK_TIME_NONE,
       G_print ''Network clock is synched to master\<newline>'' [],
       Element_factory_make ''playbin'' ''playbin'', Pipeline_use_clock,
       Clock_unref, Element_set_start_time GST_CLOCK_TIME_NONE,
       Element_set_base_time 1000000, Pipeline_set_latency 100000000,
       Object_set_uri (Some ''file:///media/movie.mkv''),
       Object_set_int ''flags'' 151, Bus_add_watch, Main_loop_new,
       Element_set_state GST_STATE_PLAYING,
       G_print ''Now playing %s\<newline>'' [ArgStr ''file:///media/movie.mkv''],
       G_print (''Prerolling...'' @ [CHR 0x0D]) [],
       Io_add_watch, G_print ''\<newline>'' [],
       G_print (''Buffering... %d%%  '' @ [CHR 0x0D]) [ArgInt 90],
       Element_set_state GST_STATE_PAUSED], None)"
    by (simp add: run_defs)
  from ev pre sample_reaches_loop pipeline_error_handling
    [of "sample_run [Bus_message (GST_MESSAGE_BUFFERING 90),
       Bus_message (GST_MESSAGE_ERROR ''decoder'' ''bad stream'' None),
       Bus_message GST_MESSAGE_CLOCK_LOST]"
      "[Bus_message (GST_MESSAGE_BUFFERING 90)]" "''decoder''" "''bad stream''" None
      "[Bus_message GST_MESSAGE_CLOCK_LOST]"]
  show ?thesis
    by simp
qed

section \<open>Properties of the clock provider\<close>





end
